theory Spec2Isabelle
  imports Main "HOL-Library.Word" "HOL-Library.Monad_Syntax"
begin

unbundle bit_operations_syntax

section \<open>Machine words\<close>

text \<open>
  \<^verbatim>\<open>lbm_uint\<close> and \<^verbatim>\<open>lbm_value\<close> are the machine word of the runtime, 32 or 64 bits wide as
  chosen at build time; their typedefs are not among the sources. \<^verbatim>\<open>const_heap_write\<close> is
  modelled at every width, and its write-once property is stated of the 32-bit build. The
  defragmenting pool is modelled on the 32-bit build (\<^verbatim>\<open>sizeof(lbm_uint) = 4\<close>), and so is
  the evaluator, whose \<^verbatim>\<open>VALUE\<close> and \<^verbatim>\<open>UINT\<close> are 32-bit words.
\<close>

type_synonym lbm_uint = "32 word"
type_synonym lbm_value = "32 word"

section \<open>The constant heap of the REPL (experiment\_repl/repl.c)\<close>

text \<open>\<^verbatim>\<open>#define CONSTANT_MEMORY_SIZE 32*1024\<close>\<close>

definition CONSTANT_MEMORY_SIZE :: nat where
  "CONSTANT_MEMORY_SIZE = 32 * 1024"

text \<open>
  \<^verbatim>\<open>lbm_uint constants_memory[CONSTANT_MEMORY_SIZE]\<close> is a list of that length, passed in and
  returned. The function returns its \<^verbatim>\<open>bool\<close> together with the array. The literal
  \<^verbatim>\<open>0xffffffff\<close> is converted to the width of \<^verbatim>\<open>lbm_uint\<close>, as the comparison in C converts
  it. The two \<^verbatim>\<open>printf\<close> lines before the final \<^verbatim>\<open>return false\<close> only write to the terminal.
\<close>

definition const_heap_write ::
  "'a::len word list \<Rightarrow> 'a word \<Rightarrow> 'a word \<Rightarrow> bool \<times> 'a word list" where
  "const_heap_write constants_memory ix w =
     (if unat ix \<ge> CONSTANT_MEMORY_SIZE then (False, constants_memory)
      else if constants_memory ! unat ix = 0xffffffff
        then (True, constants_memory[unat ix := w])
      else if constants_memory ! unat ix = w then (True, constants_memory)
      else (False, constants_memory))"

text \<open>
  \<^verbatim>\<open>memset(constants_memory, 0xFF, CONSTANT_MEMORY_SIZE * sizeof(lbm_uint))\<close> in \<^verbatim>\<open>main\<close>
  sets every byte of the array to \<^verbatim>\<open>0xFF\<close>. The erased word, the sentinel \<^verbatim>\<open>0xFF...FF\<close> of
  an unwritten slot, has every bit set at whatever width the word has; the erased array
  holds it in every slot.
\<close>

definition erased_word :: "'a::len word" where
  "erased_word = - 1"

definition constants_memory_erased :: "'a::len word list" where
  "constants_memory_erased = replicate CONSTANT_MEMORY_SIZE erased_word"

text \<open>A caller issuing a sequence of writes, results ignored, array threaded through.\<close>

fun const_heap_write_seq :: "'a::len word list \<Rightarrow> ('a word \<times> 'a word) list \<Rightarrow> 'a word list" where
  "const_heap_write_seq constants_memory [] = constants_memory"
| "const_heap_write_seq constants_memory ((ix, w) # writes) =
     const_heap_write_seq (snd (const_heap_write constants_memory ix w)) writes"

section \<open>The cons heap\<close>

text \<open>
  \<^verbatim>\<open>heap.h\<close> and \<^verbatim>\<open>heap.c\<close> are not among the sources. The definitions of this section
  stand for the functions of theirs that \<^verbatim>\<open>lbm_defrag_mem.c\<close> calls.
\<close>

text \<open>
  Modelled from the spec: the value layout of section 3 (\<^verbatim>\<open>heap.h\<close> is missing). The low
  four bits classify a word: \<^verbatim>\<open>0000\<close> is a cons-cell pointer whose payload is the index
  of the cell, \<^verbatim>\<open>0100\<close> a byte array, \<^verbatim>\<open>1xxx\<close> an immediate, of which \<^verbatim>\<open>1011\<close> is taken
  for the symbol.
\<close>

definition LBM_TYPE_CONS :: lbm_uint where
  "LBM_TYPE_CONS = 0x0"

definition LBM_TYPE_ARRAY :: lbm_uint where
  "LBM_TYPE_ARRAY = 0x4"

definition LBM_TYPE_SYMBOL :: lbm_uint where
  "LBM_TYPE_SYMBOL = 0xB"

definition lbm_type_of :: "lbm_value \<Rightarrow> lbm_uint" where
  "lbm_type_of x = x AND 0xF"

definition lbm_enc_cons_ptr :: "lbm_uint \<Rightarrow> lbm_value" where
  "lbm_enc_cons_ptr x = push_bit 4 x OR LBM_TYPE_CONS"

definition lbm_dec_ptr :: "lbm_value \<Rightarrow> lbm_uint" where
  "lbm_dec_ptr p = drop_bit 4 p"

definition lbm_set_ptr_type :: "lbm_value \<Rightarrow> lbm_uint \<Rightarrow> lbm_value" where
  "lbm_set_ptr_type p t = (p AND NOT 0xF) OR t"

definition lbm_enc_sym :: "lbm_uint \<Rightarrow> lbm_value" where
  "lbm_enc_sym s = push_bit 4 s OR LBM_TYPE_SYMBOL"

definition lbm_is_symbol :: "lbm_value \<Rightarrow> bool" where
  "lbm_is_symbol x \<longleftrightarrow> lbm_type_of x = LBM_TYPE_SYMBOL"

text \<open>
  Modelled from the spec: the built-in symbols of section 3 and the error kinds of
  section 7, numbered in the order the spec lists them (\<^verbatim>\<open>symrepr.h\<close> is missing); the
  two descriptor symbols of the defrag pool follow. The memory error of the code
  (\<^verbatim>\<open>ENC_SYM_MERROR\<close>, \<^verbatim>\<open>symrepr_merror\<close>) is the spec's \<^verbatim>\<open>ERR_OUT_OF_MEMORY\<close>, the type
  error (\<^verbatim>\<open>ENC_SYM_TERROR\<close>) its \<^verbatim>\<open>ERR_TYPE\<close>, and the evaluation error
  (\<^verbatim>\<open>symrepr_eerror\<close>) its \<^verbatim>\<open>ERR_EVAL\<close>.
\<close>

definition SYM_NIL :: lbm_uint where "SYM_NIL = 0"
definition SYM_TRUE :: lbm_uint where "SYM_TRUE = 1"
definition SYM_QUOTE :: lbm_uint where "SYM_QUOTE = 2"
definition SYM_DEFINE :: lbm_uint where "SYM_DEFINE = 3"
definition SYM_PROGN :: lbm_uint where "SYM_PROGN = 4"
definition SYM_LAMBDA :: lbm_uint where "SYM_LAMBDA = 5"
definition SYM_IF :: lbm_uint where "SYM_IF = 6"
definition SYM_LET :: lbm_uint where "SYM_LET = 7"
definition SYM_CLOSURE :: lbm_uint where "SYM_CLOSURE = 8"
definition ERR_TYPE :: lbm_uint where "ERR_TYPE = 9"
definition ERR_EVAL :: lbm_uint where "ERR_EVAL = 10"
definition ERR_ARITY :: lbm_uint where "ERR_ARITY = 11"
definition ERR_UNBOUND :: lbm_uint where "ERR_UNBOUND = 12"
definition ERR_OUT_OF_MEMORY :: lbm_uint where "ERR_OUT_OF_MEMORY = 13"
definition ERR_STACK_OVERFLOW :: lbm_uint where "ERR_STACK_OVERFLOW = 15"
definition ERR_TIMEOUT :: lbm_uint where "ERR_TIMEOUT = 16"
definition ERR_FATAL :: lbm_uint where "ERR_FATAL = 17"
definition SYM_DEFRAG_ARRAY_TYPE :: lbm_uint where "SYM_DEFRAG_ARRAY_TYPE = 18"
definition SYM_DEFRAG_MEM_TYPE :: lbm_uint where "SYM_DEFRAG_MEM_TYPE = 19"

definition ENC_SYM_NIL :: lbm_value where
  "ENC_SYM_NIL = lbm_enc_sym SYM_NIL"

definition ENC_SYM_MERROR :: lbm_value where
  "ENC_SYM_MERROR = lbm_enc_sym ERR_OUT_OF_MEMORY"

definition ENC_SYM_TERROR :: lbm_value where
  "ENC_SYM_TERROR = lbm_enc_sym ERR_TYPE"

definition ENC_SYM_DEFRAG_ARRAY_TYPE :: lbm_value where
  "ENC_SYM_DEFRAG_ARRAY_TYPE = lbm_enc_sym SYM_DEFRAG_ARRAY_TYPE"

text \<open>
  Modelled from the spec: the cons heap of sections 3 and 4.1 (\<^verbatim>\<open>heap.c\<close> is missing):
  a fixed array of two-word cells and a free list threaded through the \<^verbatim>\<open>cdr\<close> of the
  free cells, whose head is a cons-cell pointer, or \<^verbatim>\<open>nil\<close> when no cell is free.
\<close>

record lbm_heap_state_t =
  heap :: "(lbm_value \<times> lbm_value) list"
  freelist :: lbm_value

definition lbm_is_cons_cell :: "lbm_heap_state_t \<Rightarrow> lbm_value \<Rightarrow> bool" where
  "lbm_is_cons_cell h c \<longleftrightarrow>
     lbm_type_of c = LBM_TYPE_CONS \<and> unat (lbm_dec_ptr c) < length (heap h)"

text \<open>
  Modelled from the spec: \<^verbatim>\<open>Allocate(car, cdr)\<close> of section 4.1 pops the free-list head,
  writes the two words and returns the tagged pointer, or signals the memory error when
  the free list is empty.
\<close>

definition lbm_heap_allocate_cell ::
  "lbm_heap_state_t \<Rightarrow> lbm_uint \<Rightarrow> lbm_value \<Rightarrow> lbm_value \<Rightarrow> lbm_value \<times> lbm_heap_state_t" where
  "lbm_heap_allocate_cell h ptr_type car_val cdr_val =
     (if lbm_is_cons_cell h (freelist h) then
        let ix = unat (lbm_dec_ptr (freelist h)) in
          (lbm_set_ptr_type (freelist h) ptr_type,
           h\<lparr>heap := (heap h)[ix := (car_val, cdr_val)],
             freelist := snd (heap h ! ix)\<rparr>)
      else (ENC_SYM_MERROR, h))"

text \<open>
  Modelled from the spec: \<^verbatim>\<open>set-car\<close> and \<^verbatim>\<open>set-cdr\<close> of the cons heap (section 2, item
  3) write a word of the cell that a cons-cell pointer refers to. A word that is not a
  cons-cell pointer into the heap has no cell, and the heap is left as it is.
\<close>

definition lbm_set_car :: "lbm_heap_state_t \<Rightarrow> lbm_value \<Rightarrow> lbm_value \<Rightarrow> lbm_heap_state_t" where
  "lbm_set_car h c v =
     (if lbm_is_cons_cell h c then
        let ix = unat (lbm_dec_ptr c) in h\<lparr>heap := (heap h)[ix := (v, snd (heap h ! ix))]\<rparr>
      else h)"

definition lbm_set_car_and_cdr ::
  "lbm_heap_state_t \<Rightarrow> lbm_value \<Rightarrow> lbm_value \<Rightarrow> lbm_value \<Rightarrow> lbm_heap_state_t" where
  "lbm_set_car_and_cdr h c car_val cdr_val =
     (if lbm_is_cons_cell h c then
        h\<lparr>heap := (heap h)[unat (lbm_dec_ptr c) := (car_val, cdr_val)]\<rparr>
      else h)"

text \<open>
  Modelled from the spec: reading the \<^verbatim>\<open>car\<close> word of the cell that a cons-cell pointer
  refers to (section 2, item 3; \<^verbatim>\<open>heap.c\<close> is missing), \<open>None\<close> if there is no such cell.
\<close>

definition lbm_cell_car :: "lbm_heap_state_t \<Rightarrow> lbm_value \<Rightarrow> lbm_value option" where
  "lbm_cell_car h c =
     (if lbm_is_cons_cell h c then Some (fst (heap h ! unat (lbm_dec_ptr c))) else None)"

section \<open>The defragmenting pool (src/lbm\_defrag\_mem.c)\<close>

text \<open>\<^verbatim>\<open>bs2ws\<close>, with \<^verbatim>\<open>sizeof(lbm_uint) = 4\<close>.\<close>

definition bs2ws :: "lbm_uint \<Rightarrow> lbm_uint" where
  "bs2ws bs = (if bs mod 4 = 0 then bs div 4 else bs div 4 + 1)"

text \<open>
  A pool is the array that \<^verbatim>\<open>lbm_uint *defrag_mem\<close> points to: the word \<open>defrag_mem\<close>
  is its address and the list \<open>mem\<close> its content, \<^verbatim>\<open>defrag_mem[k]\<close> being \<open>mem ! k\<close>.
  \<^verbatim>\<open>DEFRAG_MEM_SIZE\<close> is word 0, \<^verbatim>\<open>DEFRAG_MEM_FLAGS\<close> word 1, and \<^verbatim>\<open>DEFRAG_MEM_DATA\<close>
  starts at word 2 (\<^verbatim>\<open>DEFRAG_MEM_HEADER_SIZE\<close>). A read or write outside the array is
  undefined in C; here it yields \<open>None\<close>, as does a loop that does not end.
\<close>

definition DEFRAG_MEM_HEADER_SIZE :: nat where
  "DEFRAG_MEM_HEADER_SIZE = 2"

definition mem_read :: "lbm_uint list \<Rightarrow> nat \<Rightarrow> lbm_uint option" where
  "mem_read mem k = (if k < length mem then Some (mem ! k) else None)"

definition mem_write :: "lbm_uint list \<Rightarrow> nat \<Rightarrow> lbm_uint \<Rightarrow> lbm_uint list option" where
  "mem_write mem k v = (if k < length mem then Some (mem[k := v]) else None)"

text \<open>\<^verbatim>\<open>mem_data[i]\<close>, and the address \<^verbatim>\<open>(lbm_uint)&mem_data[i]\<close>.\<close>

definition mem_data_ix :: "lbm_uint \<Rightarrow> nat" where
  "mem_data_ix i = DEFRAG_MEM_HEADER_SIZE + unat i"

definition mem_data_addr :: "lbm_uint \<Rightarrow> lbm_uint \<Rightarrow> lbm_uint" where
  "mem_data_addr defrag_mem i = defrag_mem + 4 * (2 + i)"

text \<open>
  \<^verbatim>\<open>memmove(dst, src, n)\<close> and \<^verbatim>\<open>memset(dst, 0, n)\<close> on whole words of the array; \<open>n\<close> is
  the byte count as the caller computes it, in 32-bit arithmetic.
\<close>

definition memmove_words :: "lbm_uint list \<Rightarrow> nat \<Rightarrow> nat \<Rightarrow> lbm_uint \<Rightarrow> lbm_uint list option" where
  "memmove_words mem dst src n =
     (let k = unat n div 4 in
      if src + k \<le> length mem \<and> dst + k \<le> length mem
      then Some (take dst mem @ take k (drop src mem) @ drop (dst + k) mem)
      else None)"

definition memset0_words :: "lbm_uint list \<Rightarrow> nat \<Rightarrow> lbm_uint \<Rightarrow> lbm_uint list option" where
  "memset0_words mem dst n =
     (let k = unat n div 4 in
      if dst + k \<le> length mem
      then Some (take dst mem @ replicate k 0 @ drop (dst + k) mem)
      else None)"

text \<open>
  The array as \<^verbatim>\<open>lbm_defrag_mem_create\<close> leaves it for \<open>nwords > 0\<close>: zeroed by
  \<^verbatim>\<open>memset\<close>, then \<^verbatim>\<open>data[0] = nwords\<close> and \<^verbatim>\<open>data[1] = 0\<close>.
\<close>

definition defrag_mem_created :: "lbm_uint \<Rightarrow> lbm_uint list" where
  "defrag_mem_created nwords = nwords # 0 # replicate (unat nwords) 0"

text \<open>
  \<^verbatim>\<open>lbm_defrag_mem_free(data)\<close>; \<open>rec_ix\<close> is the index in the array of the word \<^verbatim>\<open>data\<close>
  points to. The loop stores 0 in \<^verbatim>\<open>data[0 .. words_to_wipe - 1]\<close>.
\<close>

definition lbm_defrag_mem_free :: "lbm_uint list \<Rightarrow> nat \<Rightarrow> lbm_uint list option" where
  "lbm_defrag_mem_free mem rec_ix =
     do {
       nbytes \<leftarrow> mem_read mem rec_ix;
       let words_to_wipe = 3 + bs2ws nbytes;
       if rec_ix + unat words_to_wipe \<le> length mem
       then Some (take rec_ix mem @ replicate (unat words_to_wipe) 0
                  @ drop (rec_ix + unat words_to_wipe) mem)
       else None
     }"

text \<open>The loop of \<^verbatim>\<open>lbm_defrag_mem_defrag\<close>; \<open>i\<close> and \<open>hole_start\<close> are its variables.\<close>

partial_function (option) defrag_loop ::
  "lbm_uint \<Rightarrow> lbm_uint \<Rightarrow> lbm_uint \<Rightarrow> lbm_uint \<Rightarrow> lbm_uint list \<Rightarrow> lbm_heap_state_t
     \<Rightarrow> (lbm_uint list \<times> lbm_heap_state_t) option" where
  "defrag_loop defrag_mem mem_size i hole_start mem h =
     (if i < mem_size then
        do {
          w \<leftarrow> mem_read mem (mem_data_ix i);
          if w \<noteq> 0 then
            (let alloc_bytes = w;
                 alloc_words = bs2ws alloc_bytes
             in if hole_start = i then
                  defrag_loop defrag_mem mem_size (i + (alloc_words + 3)) (i + (alloc_words + 3))
                    mem h
                else
                  do {
                    let move_dist = i - hole_start;
                    let clear_ix = i - move_dist;
                    mem1 \<leftarrow> memmove_words mem (mem_data_ix hole_start) (mem_data_ix i)
                              ((alloc_words + 3) * 4);
                    mem2 \<leftarrow> memset0_words mem1 (mem_data_ix clear_ix) (move_dist * 4);
                    cell \<leftarrow> mem_read mem2 (mem_data_ix hole_start + 2);
                    let h' = lbm_set_car h cell (mem_data_addr defrag_mem hole_start);
                    defrag_loop defrag_mem mem_size (i + (alloc_words + 3))
                      (hole_start + (alloc_words + 3)) mem2 h'
                  })
          else defrag_loop defrag_mem mem_size (i + 1) hole_start mem h
        }
      else Some (mem, h))"

declare defrag_loop.simps [code]

definition lbm_defrag_mem_defrag ::
  "lbm_uint \<Rightarrow> lbm_uint list \<Rightarrow> lbm_heap_state_t \<Rightarrow> (lbm_uint list \<times> lbm_heap_state_t) option" where
  "lbm_defrag_mem_defrag defrag_mem mem h =
     do {
       mem_size \<leftarrow> mem_read mem 0;
       defrag_loop defrag_mem mem_size 0 0 mem h
     }"

text \<open>The scan of \<^verbatim>\<open>lbm_defrag_mem_alloc\<close>; it yields \<^verbatim>\<open>alloc_found\<close> and \<^verbatim>\<open>free_start\<close>.\<close>

datatype scan_state = INIT | FREE_LEN

partial_function (option) alloc_scan ::
  "lbm_uint \<Rightarrow> lbm_uint \<Rightarrow> lbm_uint list \<Rightarrow> lbm_uint \<Rightarrow> scan_state \<Rightarrow> lbm_uint \<Rightarrow> lbm_uint
     \<Rightarrow> (bool \<times> lbm_uint) option" where
  "alloc_scan mem_size alloc_words mem i state free_words free_start =
     (if i < mem_size then
        do {
          w \<leftarrow> mem_read mem (mem_data_ix i);
          case state of
            INIT \<Rightarrow>
              if w = 0 then alloc_scan mem_size alloc_words mem (i + 1) FREE_LEN 1 i
              else alloc_scan mem_size alloc_words mem (i + (bs2ws w + 3)) INIT free_words
                     free_start
          | FREE_LEN \<Rightarrow>
              if w = 0 then
                (if free_words + 1 \<ge> alloc_words then Some (True, free_start)
                 else alloc_scan mem_size alloc_words mem (i + 1) FREE_LEN (free_words + 1)
                        free_start)
              else alloc_scan mem_size alloc_words mem (i + 1) INIT free_words free_start
        }
      else Some (False, free_start))"

declare alloc_scan.simps [code]

text \<open>
  \<^verbatim>\<open>lbm_defrag_mem_alloc\<close>. It returns the result value with the array and the heap.
\<close>

definition lbm_defrag_mem_alloc ::
  "lbm_uint \<Rightarrow> lbm_uint \<Rightarrow> lbm_uint list \<Rightarrow> lbm_heap_state_t
     \<Rightarrow> (lbm_value \<times> lbm_uint list \<times> lbm_heap_state_t) option" where
  "lbm_defrag_mem_alloc defrag_mem bytes mem h0 =
     (let (cell, h) = lbm_heap_allocate_cell h0 LBM_TYPE_CONS ENC_SYM_NIL ENC_SYM_DEFRAG_ARRAY_TYPE
      in if lbm_is_symbol cell then Some (cell, mem, h)
         else
           do {
             mem_size \<leftarrow> mem_read mem 0;
             flags \<leftarrow> mem_read mem 1;
             (mem1, h1) \<leftarrow>
               (if flags \<noteq> 0 then
                  do {
                    (m, hd) \<leftarrow> lbm_defrag_mem_defrag defrag_mem mem h;
                    m' \<leftarrow> mem_write m 1 0;
                    Some (m', hd)
                  }
                else Some (mem, h));
             let num_words = bs2ws bytes;
             let alloc_words = num_words + 3;
             (alloc_found, free_start) \<leftarrow> alloc_scan mem_size alloc_words mem1 0 INIT 0 0;
             if alloc_found then
               do {
                 let allocation = mem_data_ix free_start;
                 mem2 \<leftarrow> mem_write mem1 allocation bytes;
                 mem3 \<leftarrow> mem_write mem2 (allocation + 1) (mem_data_addr defrag_mem free_start + 4 * 3);
                 mem4 \<leftarrow> mem_write mem3 (allocation + 2) (lbm_dec_ptr cell);
                 let h2 = lbm_set_car h1 cell (mem_data_addr defrag_mem free_start);
                 Some (lbm_set_ptr_type cell LBM_TYPE_ARRAY, mem4, h2)
               }
             else
               do {
                 mem2 \<leftarrow> mem_write mem1 1 1;
                 Some (ENC_SYM_MERROR, mem2, lbm_set_car_and_cdr h1 cell ENC_SYM_NIL ENC_SYM_NIL)
               }
           })"

subsection \<open>The records of a pool and their back-pointers\<close>

text \<open>
  The populated records are found the way \<^verbatim>\<open>lbm_defrag_mem_destroy\<close> and
  \<^verbatim>\<open>lbm_defrag_mem_defrag\<close> walk the data words: from index 0, a nonzero word is the size
  word of a record of \<^verbatim>\<open>3 + bs2ws(size)\<close> words, a zero word is skipped. The walk makes at
  most one step per data word, which bounds it.
\<close>

definition mem_data :: "lbm_uint list \<Rightarrow> lbm_uint list" where
  "mem_data mem = take (unat (hd mem)) (drop DEFRAG_MEM_HEADER_SIZE mem)"

fun defrag_records_from :: "nat \<Rightarrow> lbm_uint list \<Rightarrow> nat \<Rightarrow> nat list" where
  "defrag_records_from 0 d i = []"
| "defrag_records_from (Suc n) d i =
     (if i < length d then
        (if d ! i \<noteq> 0 then i # defrag_records_from n d (i + (3 + unat (bs2ws (d ! i))))
         else defrag_records_from n d (i + 1))
      else [])"

definition defrag_records :: "lbm_uint list \<Rightarrow> nat list" where
  "defrag_records mem = defrag_records_from (length (mem_data mem)) (mem_data mem) 0"

text \<open>
  The back-pointer of the record at data index \<open>i\<close> is its third word,
  \<^verbatim>\<open>DEFRAG_ALLOC_CELLPTR\<close>, which \<^verbatim>\<open>lbm_defrag_mem_alloc\<close> stores decoded and
  \<^verbatim>\<open>free_defrag_allocation\<close> encodes again with \<^verbatim>\<open>lbm_enc_cons_ptr\<close>. The record is linked
  back when that cell exists and its \<^verbatim>\<open>car\<close> is the address of the record.
\<close>

definition record_linked_back :: "lbm_uint \<Rightarrow> lbm_uint list \<Rightarrow> lbm_heap_state_t \<Rightarrow> nat \<Rightarrow> bool" where
  "record_linked_back defrag_mem mem h i \<longleftrightarrow>
     i + 2 < length (mem_data mem) \<and>
     lbm_cell_car h (lbm_enc_cons_ptr (mem_data mem ! (i + 2)))
       = Some (mem_data_addr defrag_mem (of_nat i))"

definition defrag_back_ptr_inv :: "lbm_uint \<Rightarrow> lbm_uint list \<Rightarrow> lbm_heap_state_t \<Rightarrow> bool" where
  "defrag_back_ptr_inv defrag_mem mem h \<longleftrightarrow>
     list_all (record_linked_back defrag_mem mem h) (defrag_records mem)"

section \<open>The evaluator (src/eval\_cps.c)\<close>

type_synonym VALUE = "32 word"
type_synonym UINT = "32 word"

text \<open>The continuation tags, as \<^verbatim>\<open>#define\<close>d.\<close>

definition DONE :: UINT where "DONE = 1"
definition SET_GLOBAL_ENV :: UINT where "SET_GLOBAL_ENV = 2"
definition FUNCTION_APP :: UINT where "FUNCTION_APP = 3"
definition FUNCTION :: UINT where "FUNCTION = 4"
definition BIND_TO_KEY_REST :: UINT where "BIND_TO_KEY_REST = 5"
definition IF :: UINT where "IF = 6"
definition ARG_LIST :: UINT where "ARG_LIST = 7"
definition EVAL :: UINT where "EVAL = 8"
definition PROGN_REST :: UINT where "PROGN_REST = 9"

subsection \<open>What the evaluator calls\<close>

text \<open>
  \<^verbatim>\<open>eval_cps.c\<close> includes \<^verbatim>\<open>symrepr.h\<close>, \<^verbatim>\<open>heap.h\<close>, \<^verbatim>\<open>env.h\<close>, \<^verbatim>\<open>stack.h\<close>,
  \<^verbatim>\<open>fundamental.h\<close> and \<^verbatim>\<open>bytecode.h\<close>, none of which is among the sources. What it calls
  from them is a parameter of the model: a record \<open>rt\<close> of functions over a heap of any type
  \<open>'h\<close>, so that what is proved of the evaluator holds for every implementation of them.
  A function that reads the heap takes it; one that allocates or writes returns it too.
  An output parameter written on success only (\<^verbatim>\<open>env_lookup\<close>, \<^verbatim>\<open>env_copy_shallow\<close>,
  \<^verbatim>\<open>env_build_params_args\<close>) is an \<open>option\<close>, \<open>None\<close> for the result \<^verbatim>\<open>false\<close>.
  \<^verbatim>\<open>fundamental_exec\<close> and \<^verbatim>\<open>bytecode_eval\<close> work on the stack they are given and return it.
\<close>

datatype value_type =
    VAL_TYPE_SYMBOL | VAL_TYPE_I | VAL_TYPE_U | VAL_TYPE_CHAR
  | PTR_TYPE_CONS | PTR_TYPE_BOXED_F | PTR_TYPE_BOXED_U | PTR_TYPE_BOXED_I
  | PTR_TYPE_ARRAY | PTR_TYPE_REF | PTR_TYPE_STREAM | PTR_TYPE_BYTECODE
  | TYPE_OTHER

record 'h runtime =
  type_of :: "VALUE \<Rightarrow> value_type"
  enc_sym :: "UINT \<Rightarrow> VALUE"
  dec_sym :: "VALUE \<Rightarrow> UINT"
  enc_u :: "UINT \<Rightarrow> VALUE"
  dec_u :: "VALUE \<Rightarrow> UINT"
  symrepr_nil :: UINT
  symrepr_true :: UINT
  symrepr_eerror :: UINT
  symrepr_merror :: UINT
  symrepr_quote :: UINT
  symrepr_define :: UINT
  symrepr_progn :: UINT
  symrepr_lambda :: UINT
  symrepr_if :: UINT
  symrepr_let :: UINT
  symrepr_closure :: UINT
  symrepr_is_error :: "UINT \<Rightarrow> bool"
  car :: "'h \<Rightarrow> VALUE \<Rightarrow> VALUE"
  cdr :: "'h \<Rightarrow> VALUE \<Rightarrow> VALUE"
  cons :: "'h \<Rightarrow> VALUE \<Rightarrow> VALUE \<Rightarrow> VALUE \<times> 'h"
  set_cdr :: "'h \<Rightarrow> VALUE \<Rightarrow> VALUE \<Rightarrow> 'h"
  length_list :: "'h \<Rightarrow> VALUE \<Rightarrow> UINT"
  reverse :: "'h \<Rightarrow> VALUE \<Rightarrow> VALUE \<times> 'h"
  env_lookup :: "'h \<Rightarrow> VALUE \<Rightarrow> VALUE \<Rightarrow> VALUE option"
  env_copy_shallow :: "'h \<Rightarrow> VALUE \<Rightarrow> VALUE option \<times> 'h"
  env_build_params_args :: "'h \<Rightarrow> VALUE \<Rightarrow> VALUE \<Rightarrow> VALUE \<Rightarrow> VALUE option \<times> 'h"
  env_modify_binding :: "'h \<Rightarrow> VALUE \<Rightarrow> VALUE \<Rightarrow> VALUE \<Rightarrow> 'h"
  is_fundamental :: "VALUE \<Rightarrow> bool"
  fundamental_exec :: "'h \<Rightarrow> VALUE list \<Rightarrow> VALUE \<Rightarrow> bool \<times> VALUE list \<times> 'h"
  bytecode_eval :: "'h \<Rightarrow> VALUE list \<Rightarrow> VALUE \<Rightarrow> VALUE \<times> VALUE list \<times> 'h"
  heap_perform_gc_aux ::
    "'h \<Rightarrow> VALUE \<Rightarrow> VALUE \<Rightarrow> VALUE \<Rightarrow> VALUE \<Rightarrow> VALUE \<Rightarrow> VALUE list \<Rightarrow> 'h"

text \<open>\<^verbatim>\<open>static VALUE NIL\<close>, which \<^verbatim>\<open>eval_cps_init\<close> sets to \<^verbatim>\<open>enc_sym(symrepr_nil())\<close>.\<close>

definition NIL :: "'h runtime \<Rightarrow> VALUE" where
  "NIL rt = enc_sym rt (symrepr_nil rt)"

subsection \<open>The continuation stack\<close>

text \<open>
  Modelled from the spec: the continuation stack of section 4.4 (\<^verbatim>\<open>stack.h\<close> is missing),
  a growable array of words with the operations push-k and pop-k. The stack \<^verbatim>\<open>ctx->K\<close> is
  a list, its top the head. \<^verbatim>\<open>push_u32_n\<close> pushes its arguments from left to right, so the
  last one ends on top; \<^verbatim>\<open>pop_u32_n\<close> fills its arguments from left to right, the first one
  from the top. The evaluator ignores the result of every push and pop: a push is taken
  to succeed, and a pop from an empty stack, which is undefined, yields \<open>None\<close>.
\<close>

definition push_u32 :: "VALUE list \<Rightarrow> VALUE \<Rightarrow> VALUE list" where
  "push_u32 K v = v # K"

definition push_u32_2 :: "VALUE list \<Rightarrow> VALUE \<Rightarrow> VALUE \<Rightarrow> VALUE list" where
  "push_u32_2 K v1 v2 = v2 # v1 # K"

definition push_u32_3 :: "VALUE list \<Rightarrow> VALUE \<Rightarrow> VALUE \<Rightarrow> VALUE \<Rightarrow> VALUE list" where
  "push_u32_3 K v1 v2 v3 = v3 # v2 # v1 # K"

definition push_u32_4 ::
  "VALUE list \<Rightarrow> VALUE \<Rightarrow> VALUE \<Rightarrow> VALUE \<Rightarrow> VALUE \<Rightarrow> VALUE list" where
  "push_u32_4 K v1 v2 v3 v4 = v4 # v3 # v2 # v1 # K"

definition push_u32_5 ::
  "VALUE list \<Rightarrow> VALUE \<Rightarrow> VALUE \<Rightarrow> VALUE \<Rightarrow> VALUE \<Rightarrow> VALUE \<Rightarrow> VALUE list" where
  "push_u32_5 K v1 v2 v3 v4 v5 = v5 # v4 # v3 # v2 # v1 # K"

definition pop_u32 :: "VALUE list \<Rightarrow> (VALUE \<times> VALUE list) option" where
  "pop_u32 K = (case K of v # K' \<Rightarrow> Some (v, K') | _ \<Rightarrow> None)"

definition pop_u32_2 :: "VALUE list \<Rightarrow> (VALUE \<times> VALUE \<times> VALUE list) option" where
  "pop_u32_2 K = (case K of v1 # v2 # K' \<Rightarrow> Some (v1, v2, K') | _ \<Rightarrow> None)"

definition pop_u32_3 :: "VALUE list \<Rightarrow> (VALUE \<times> VALUE \<times> VALUE \<times> VALUE list) option" where
  "pop_u32_3 K = (case K of v1 # v2 # v3 # K' \<Rightarrow> Some (v1, v2, v3, K') | _ \<Rightarrow> None)"

subsection \<open>The state of an evaluation\<close>

text \<open>
  The fields \<^verbatim>\<open>program\<close>, \<^verbatim>\<open>curr_exp\<close>, \<^verbatim>\<open>curr_env\<close> and \<^verbatim>\<open>K\<close> of the context \<^verbatim>\<open>ctx\<close>, the
  global \<^verbatim>\<open>eval_cps_global_env\<close>, the cons heap, and the local variables \<^verbatim>\<open>r\<close>, \<^verbatim>\<open>done\<close>,
  \<^verbatim>\<open>perform_gc\<close>, \<^verbatim>\<open>app_cont\<close> and \<^verbatim>\<open>non_gc\<close> of \<^verbatim>\<open>run_eval\<close>, which
  \<^verbatim>\<open>apply_continuation\<close> writes through its pointer arguments. The field \<^verbatim>\<open>next\<close> of the
  context links the contexts and is not used by the evaluation of one.
\<close>

record 'h eval_state =
  ctx_program :: VALUE
  ctx_curr_exp :: VALUE
  ctx_curr_env :: VALUE
  ctx_K :: "VALUE list"
  eval_cps_global_env :: VALUE
  cons_heap :: 'h
  r_value :: VALUE
  done_flag :: bool
  perform_gc :: bool
  app_cont :: bool
  non_gc :: "32 word"

subsection \<open>\<^verbatim>\<open>cont_set_global_env\<close>\<close>

text \<open>
  The \<^verbatim>\<open>while\<close> loop over the global environment: \<open>(True, h')\<close> when the key was found and
  its binding updated by \<^verbatim>\<open>set_cdr\<close>, \<open>(False, h)\<close> when the list ended without it.
\<close>

partial_function (option) global_env_update ::
  "'h runtime \<Rightarrow> 'h \<Rightarrow> VALUE \<Rightarrow> VALUE \<Rightarrow> VALUE \<Rightarrow> (bool \<times> 'h) option" where
  "global_env_update rt h curr_v key val =
     (if type_of rt curr_v = PTR_TYPE_CONS then
        (if car rt h (car rt h curr_v) = key
         then Some (True, set_cdr rt h (car rt h curr_v) val)
         else global_env_update rt h (cdr rt h curr_v) key val)
      else Some (False, h))"

declare global_env_update.simps [code]

definition cont_set_global_env ::
  "'h runtime \<Rightarrow> 'h eval_state \<Rightarrow> VALUE \<Rightarrow> (VALUE \<times> 'h eval_state) option" where
  "cont_set_global_env rt s val =
     do {
       (key, K1) \<leftarrow> pop_u32 (ctx_K s);
       (found, h1) \<leftarrow> global_env_update rt (cons_heap s) (eval_cps_global_env s) key val;
       if found then
         Some (enc_sym rt (symrepr_true rt), s\<lparr>ctx_K := K1, cons_heap := h1\<rparr>)
       else
         (let (keyval, h2) = cons rt h1 key val in
          if type_of rt keyval = VAL_TYPE_SYMBOL then
            Some (val, s\<lparr>ctx_K := push_u32_2 K1 key (enc_u rt SET_GLOBAL_ENV),
                         cons_heap := h2, perform_gc := True\<rparr>)
          else
            (let (tmp, h3) = cons rt h2 keyval (eval_cps_global_env s) in
             if type_of rt tmp = VAL_TYPE_SYMBOL then
               Some (val, s\<lparr>ctx_K := push_u32_2 K1 key (enc_u rt SET_GLOBAL_ENV),
                            cons_heap := h3, perform_gc := True\<rparr>)
             else
               Some (enc_sym rt (symrepr_true rt),
                     s\<lparr>ctx_K := K1, cons_heap := h3, eval_cps_global_env := tmp\<rparr>)))
     }"

subsection \<open>\<^verbatim>\<open>apply_continuation\<close>\<close>

text \<open>
  Each case of the \<^verbatim>\<open>switch\<close> is a definition of its own, entered after the tag \<^verbatim>\<open>k\<close> has
  been popped and \<^verbatim>\<open>*app_cont\<close> set to \<^verbatim>\<open>false\<close>. The result is the returned value with
  the state. The \<^verbatim>\<open>printf\<close> and \<^verbatim>\<open>simple_print\<close> lines only write to the terminal.
\<close>

definition cont_progn_rest ::
  "'h runtime \<Rightarrow> 'h eval_state \<Rightarrow> VALUE \<Rightarrow> (VALUE \<times> 'h eval_state) option" where
  "cont_progn_rest rt s arg =
     do {
       (rest, K1) \<leftarrow> pop_u32 (ctx_K s);
       if type_of rt rest = VAL_TYPE_SYMBOL \<and> rest = NIL rt then
         Some (arg, s\<lparr>ctx_K := K1, app_cont := True\<rparr>)
       else if symrepr_is_error rt rest then
         Some (rest, s\<lparr>ctx_K := K1, done_flag := True\<rparr>)
       else
         Some (enc_u rt 0,
               s\<lparr>ctx_K := push_u32_2 K1 (cdr rt (cons_heap s) rest) (enc_u rt PROGN_REST),
                 ctx_curr_exp := car rt (cons_heap s) rest\<rparr>)
     }"

text \<open>
  The loop of the fundamental-operation branch, which pushes the arguments and counts
  them, and the loop of the bytecode branch, which never advances \<^verbatim>\<open>curr_arg\<close> and so ends
  only if it does not start.
\<close>

partial_function (option) push_args ::
  "'h runtime \<Rightarrow> 'h \<Rightarrow> VALUE \<Rightarrow> VALUE list \<Rightarrow> UINT \<Rightarrow> (VALUE list \<times> UINT) option" where
  "push_args rt h curr_arg K nargs =
     (if type_of rt curr_arg = PTR_TYPE_CONS
      then push_args rt h (cdr rt h curr_arg) (push_u32 K (car rt h curr_arg)) (nargs + 1)
      else Some (K, nargs))"

declare push_args.simps [code]

partial_function (option) push_bytecode_args ::
  "'h runtime \<Rightarrow> 'h \<Rightarrow> VALUE \<Rightarrow> VALUE list \<Rightarrow> VALUE list option" where
  "push_bytecode_args rt h curr_arg K =
     (if curr_arg \<noteq> NIL rt
      then push_bytecode_args rt h curr_arg (push_u32 K (car rt h curr_arg))
      else Some K)"

declare push_bytecode_args.simps [code]

text \<open>
  In the bytecode branch \<^verbatim>\<open>ctx\<close> is redeclared as \<^verbatim>\<open>eval_cps_get_current_context()\<close>. Both
  callers of \<^verbatim>\<open>run_eval\<close> pass that context, and the model takes the two to be the same.
\<close>

definition cont_function_app ::
  "'h runtime \<Rightarrow> 'h eval_state \<Rightarrow> VALUE \<Rightarrow> (VALUE \<times> 'h eval_state) option" where
  "cont_function_app rt s arg =
     do {
       let fun = arg;
       (args, K1) \<leftarrow> pop_u32 (ctx_K s);
       let (args_rev, h1) =
             (if type_of rt args = PTR_TYPE_CONS then reverse rt (cons_heap s) args
              else (args, cons_heap s));
       if type_of rt args = PTR_TYPE_CONS \<and> type_of rt args_rev = VAL_TYPE_SYMBOL then
         Some (fun, s\<lparr>ctx_K := push_u32_2 K1 args (enc_u rt FUNCTION_APP), cons_heap := h1,
                      perform_gc := True, app_cont := True\<rparr>)
       else if type_of rt fun = PTR_TYPE_CONS then
         (let params = car rt h1 (cdr rt h1 fun);
              exp = car rt h1 (cdr rt h1 (cdr rt h1 fun));
              clo_env = car rt h1 (cdr rt h1 (cdr rt h1 (cdr rt h1 fun)))
          in if length_list rt h1 params \<noteq> length_list rt h1 args then
               Some (enc_sym rt (symrepr_eerror rt),
                     s\<lparr>ctx_K := K1, cons_heap := h1, done_flag := True\<rparr>)
             else
               (case env_build_params_args rt h1 params args_rev clo_env of
                  (None, h2) \<Rightarrow>
                    Some (fun, s\<lparr>ctx_K := push_u32_2 K1 args (enc_u rt FUNCTION_APP),
                                 cons_heap := h2, perform_gc := True, app_cont := True\<rparr>)
                | (Some local_env, h2) \<Rightarrow>
                    Some (0, s\<lparr>ctx_K := K1, cons_heap := h2, ctx_curr_exp := exp,
                               ctx_curr_env := local_env\<rparr>)))
       else if type_of rt fun = PTR_TYPE_BYTECODE then
         do {
           K2 \<leftarrow> push_bytecode_args rt h1 args_rev K1;
           let bc = car rt h1 fun;
           let (res, K3, h2) = bytecode_eval rt h1 K2 bc;
           Some (res, s\<lparr>ctx_K := K3, cons_heap := h2, app_cont := True\<rparr>)
         }
       else if type_of rt fun = VAL_TYPE_SYMBOL then
         do {
           (K2, nargs) \<leftarrow> push_args rt h1 args K1 0;
           let K3 = push_u32 K2 (enc_u rt nargs);
           let (ok, K4, h2) = fundamental_exec rt h1 K3 fun;
           if \<not> ok then
             Some (enc_sym rt (symrepr_merror rt),
                   s\<lparr>ctx_K := K4, cons_heap := h2, done_flag := True\<rparr>)
           else
             do {
               (res, K5) \<leftarrow> pop_u32 K4;
               if type_of rt res = VAL_TYPE_SYMBOL \<and> dec_sym rt res = symrepr_merror rt then
                 Some (fun, s\<lparr>ctx_K := push_u32_2 K5 args (enc_u rt FUNCTION_APP),
                              cons_heap := h2, perform_gc := True, app_cont := True\<rparr>)
               else
                 Some (res, s\<lparr>ctx_K := K5, cons_heap := h2, app_cont := True\<rparr>)
             }
         }
       else
         Some (enc_sym rt (symrepr_eerror rt),
               s\<lparr>ctx_K := K1, cons_heap := h1, done_flag := True\<rparr>)
     }"

definition cont_arg_list ::
  "'h runtime \<Rightarrow> 'h eval_state \<Rightarrow> VALUE \<Rightarrow> (VALUE \<times> 'h eval_state) option" where
  "cont_arg_list rt s arg =
     do {
       (rest, acc, env, K1) \<leftarrow> pop_u32_3 (ctx_K s);
       let (acc', h1) = cons rt (cons_heap s) arg acc;
       if type_of rt acc' = VAL_TYPE_SYMBOL then
         Some (arg, s\<lparr>ctx_K := push_u32_4 K1 env acc rest (enc_u rt ARG_LIST), cons_heap := h1,
                      perform_gc := True, app_cont := True\<rparr>)
       else if type_of rt rest = VAL_TYPE_SYMBOL \<and> rest = NIL rt then
         Some (acc', s\<lparr>ctx_K := K1, cons_heap := h1, app_cont := True\<rparr>)
       else
         (let head = car rt h1 rest in
          Some (enc_u rt 0,
                s\<lparr>ctx_K := push_u32_4 K1 env acc' (cdr rt h1 rest) (enc_u rt ARG_LIST),
                  cons_heap := h1, ctx_curr_env := env, ctx_curr_exp := head\<rparr>))
     }"

definition cont_function ::
  "'h runtime \<Rightarrow> 'h eval_state \<Rightarrow> VALUE \<Rightarrow> (VALUE \<times> 'h eval_state) option" where
  "cont_function rt s arg =
     do {
       (fun, K1) \<leftarrow> pop_u32 (ctx_K s);
       let K2 = push_u32_2 K1 arg (enc_u rt FUNCTION_APP);
       if is_fundamental rt fun then Some (fun, s\<lparr>ctx_K := K2, app_cont := True\<rparr>)
       else Some (enc_u rt 0, s\<lparr>ctx_K := K2, ctx_curr_exp := fun\<rparr>)
     }"

definition cont_bind_to_key_rest ::
  "'h runtime \<Rightarrow> 'h eval_state \<Rightarrow> VALUE \<Rightarrow> (VALUE \<times> 'h eval_state) option" where
  "cont_bind_to_key_rest rt s arg =
     do {
       (key, env, rest, K1) \<leftarrow> pop_u32_3 (ctx_K s);
       let h1 = env_modify_binding rt (cons_heap s) env key arg;
       if type_of rt rest = PTR_TYPE_CONS then
         (let keyn = car rt h1 (car rt h1 rest);
              valn_exp = car rt h1 (cdr rt h1 (car rt h1 rest))
          in Some (enc_u rt 0,
                   s\<lparr>ctx_K := push_u32_4 K1 (cdr rt h1 rest) env keyn (enc_u rt BIND_TO_KEY_REST),
                     cons_heap := h1, ctx_curr_exp := valn_exp, ctx_curr_env := env\<rparr>))
       else
         do {
           (exp, K2) \<leftarrow> pop_u32 K1;
           Some (enc_u rt 0,
                 s\<lparr>ctx_K := K2, cons_heap := h1, ctx_curr_exp := exp, ctx_curr_env := env\<rparr>)
         }
     }"

definition cont_if ::
  "'h runtime \<Rightarrow> 'h eval_state \<Rightarrow> VALUE \<Rightarrow> (VALUE \<times> 'h eval_state) option" where
  "cont_if rt s arg =
     do {
       (then_branch, else_branch, K1) \<leftarrow> pop_u32_2 (ctx_K s);
       if type_of rt arg = VAL_TYPE_SYMBOL \<and> dec_sym rt arg = symrepr_true rt
       then Some (0, s\<lparr>ctx_K := K1, ctx_curr_exp := then_branch\<rparr>)
       else Some (0, s\<lparr>ctx_K := K1, ctx_curr_exp := else_branch\<rparr>)
     }"

definition apply_continuation ::
  "'h runtime \<Rightarrow> 'h eval_state \<Rightarrow> VALUE \<Rightarrow> (VALUE \<times> 'h eval_state) option" where
  "apply_continuation rt s0 arg =
     do {
       (k, K1) \<leftarrow> pop_u32 (ctx_K s0);
       let s = s0\<lparr>ctx_K := K1, app_cont := False\<rparr>;
       if dec_u rt k = DONE then Some (arg, s\<lparr>done_flag := True\<rparr>)
       else if dec_u rt k = EVAL then Some (enc_u rt 0, s\<lparr>ctx_curr_exp := arg\<rparr>)
       else if dec_u rt k = SET_GLOBAL_ENV then
         do {
           (res, s') \<leftarrow> cont_set_global_env rt s arg;
           Some (res, s'\<lparr>app_cont := True\<rparr>)
         }
       else if dec_u rt k = PROGN_REST then cont_progn_rest rt s arg
       else if dec_u rt k = FUNCTION_APP then cont_function_app rt s arg
       else if dec_u rt k = ARG_LIST then cont_arg_list rt s arg
       else if dec_u rt k = FUNCTION then cont_function rt s arg
       else if dec_u rt k = BIND_TO_KEY_REST then cont_bind_to_key_rest rt s arg
       else if dec_u rt k = IF then cont_if rt s arg
       else Some (enc_sym rt (symrepr_eerror rt), s\<lparr>done_flag := True\<rparr>)
     }"

subsection \<open>\<^verbatim>\<open>run_eval\<close>\<close>

text \<open>
  The inner \<^verbatim>\<open>while\<close> loop of the special form \<^verbatim>\<open>let\<close>, which binds every key to \<^verbatim>\<open>NIL\<close>
  ahead of the environment. Its \<^verbatim>\<open>continue\<close> after a failed \<^verbatim>\<open>cons\<close> continues this inner
  loop: \<^verbatim>\<open>curr\<close> is not advanced and the two allocations are tried again. The result is
  the heap, \<^verbatim>\<open>new_env\<close> and \<^verbatim>\<open>perform_gc\<close> when the loop ends.
\<close>

partial_function (option) let_bind_keys ::
  "'h runtime \<Rightarrow> 'h \<Rightarrow> VALUE \<Rightarrow> VALUE \<Rightarrow> bool \<Rightarrow> ('h \<times> VALUE \<times> bool) option" where
  "let_bind_keys rt h curr_v new_env pgc =
     (if type_of rt curr_v = PTR_TYPE_CONS then
        (let key = car rt h (car rt h curr_v);
             val = NIL rt;
             (binding, h1) = cons rt h key val;
             (new_env', h2) = cons rt h1 binding new_env
         in if type_of rt binding = VAL_TYPE_SYMBOL \<or> type_of rt new_env' = VAL_TYPE_SYMBOL
            then let_bind_keys rt h2 curr_v new_env' True
            else let_bind_keys rt h2 (cdr rt h2 curr_v) new_env' pgc)
      else Some (h, new_env, pgc))"

declare let_bind_keys.simps [code]

text \<open>
  The special forms, tried in the order of the source when the head of \<^verbatim>\<open>ctx->curr_exp\<close>
  is a symbol. \<open>None\<close> of the outer \<open>option\<close> is a loop that does not end; \<open>Some None\<close>
  says that the head is none of the special forms, so that the code goes on to the
  application.
\<close>

definition eval_quote :: "'h runtime \<Rightarrow> 'h eval_state \<Rightarrow> 'h eval_state" where
  "eval_quote rt s =
     (let h = cons_heap s; value = car rt h (cdr rt h (ctx_curr_exp s))
      in s\<lparr>app_cont := True, r_value := value\<rparr>)"

definition eval_define :: "'h runtime \<Rightarrow> 'h eval_state \<Rightarrow> 'h eval_state" where
  "eval_define rt s =
     (let h = cons_heap s;
          key = car rt h (cdr rt h (ctx_curr_exp s));
          val_exp = car rt h (cdr rt h (cdr rt h (ctx_curr_exp s)))
      in if type_of rt key \<noteq> VAL_TYPE_SYMBOL \<or> key = NIL rt then
           s\<lparr>done_flag := True, r_value := enc_sym rt (symrepr_eerror rt)\<rparr>
         else
           s\<lparr>ctx_K := push_u32_2 (ctx_K s) key (enc_u rt SET_GLOBAL_ENV),
             ctx_curr_exp := val_exp\<rparr>)"

definition eval_progn :: "'h runtime \<Rightarrow> 'h eval_state \<Rightarrow> 'h eval_state" where
  "eval_progn rt s =
     (let h = cons_heap s; exps = cdr rt h (ctx_curr_exp s)
      in if type_of rt exps = VAL_TYPE_SYMBOL \<and> exps = NIL rt then
           s\<lparr>r_value := enc_sym rt (symrepr_nil rt), app_cont := True\<rparr>
         else if symrepr_is_error rt exps then
           s\<lparr>r_value := exps, done_flag := True\<rparr>
         else
           s\<lparr>ctx_K := push_u32_2 (ctx_K s) (cdr rt h exps) (enc_u rt PROGN_REST),
             ctx_curr_exp := car rt h exps\<rparr>)"

definition eval_lambda :: "'h runtime \<Rightarrow> 'h eval_state \<Rightarrow> 'h eval_state" where
  "eval_lambda rt s =
     (case env_copy_shallow rt (cons_heap s) (ctx_curr_env s) of
        (None, h1) \<Rightarrow> s\<lparr>cons_heap := h1, perform_gc := True, app_cont := False\<rparr>
      | (Some env_cpy, h1) \<Rightarrow>
          (let (env_end, h2) = cons rt h1 env_cpy (NIL rt);
               (body, h3) = cons rt h2 (car rt h2 (cdr rt h2 (cdr rt h2 (ctx_curr_exp s)))) env_end;
               (params, h4) = cons rt h3 (car rt h3 (cdr rt h3 (ctx_curr_exp s))) body;
               (closure, h5) = cons rt h4 (enc_sym rt (symrepr_closure rt)) params
           in if type_of rt env_end = VAL_TYPE_SYMBOL \<or> type_of rt body = VAL_TYPE_SYMBOL \<or>
                 type_of rt params = VAL_TYPE_SYMBOL \<or> type_of rt closure = VAL_TYPE_SYMBOL
              then s\<lparr>cons_heap := h5, perform_gc := True, app_cont := False\<rparr>
              else s\<lparr>cons_heap := h5, app_cont := True, r_value := closure\<rparr>))"

definition eval_if :: "'h runtime \<Rightarrow> 'h eval_state \<Rightarrow> 'h eval_state" where
  "eval_if rt s =
     (let h = cons_heap s; e = ctx_curr_exp s
      in s\<lparr>ctx_K := push_u32_3 (ctx_K s)
                       (car rt h (cdr rt h (cdr rt h (cdr rt h e))))
                       (car rt h (cdr rt h (cdr rt h e)))
                       (enc_u rt IF),
           ctx_curr_exp := car rt h (cdr rt h e)\<rparr>)"

definition eval_let :: "'h runtime \<Rightarrow> 'h eval_state \<Rightarrow> 'h eval_state option" where
  "eval_let rt s =
     (let h = cons_heap s;
          orig_env = ctx_curr_env s;
          binds = car rt h (cdr rt h (ctx_curr_exp s));
          exp = car rt h (cdr rt h (cdr rt h (ctx_curr_exp s)))
      in if type_of rt binds \<noteq> PTR_TYPE_CONS then Some (s\<lparr>ctx_curr_exp := exp\<rparr>)
         else
           do {
             (h1, new_env, pgc) \<leftarrow> let_bind_keys rt h binds orig_env (perform_gc s);
             let key0 = car rt h1 (car rt h1 binds);
             let val0_exp = car rt h1 (cdr rt h1 (car rt h1 binds));
             Some (s\<lparr>ctx_K := push_u32_5 (ctx_K s) exp (cdr rt h1 binds) new_env key0
                                (enc_u rt BIND_TO_KEY_REST),
                      cons_heap := h1, perform_gc := pgc, app_cont := False,
                      ctx_curr_exp := val0_exp, ctx_curr_env := new_env\<rparr>)
           })"

definition eval_special_form ::
  "'h runtime \<Rightarrow> 'h eval_state \<Rightarrow> VALUE \<Rightarrow> 'h eval_state option option" where
  "eval_special_form rt s head =
     (if dec_sym rt head = symrepr_quote rt then Some (Some (eval_quote rt s))
      else if dec_sym rt head = symrepr_define rt then Some (Some (eval_define rt s))
      else if dec_sym rt head = symrepr_progn rt then Some (Some (eval_progn rt s))
      else if dec_sym rt head = symrepr_lambda rt then Some (Some (eval_lambda rt s))
      else if dec_sym rt head = symrepr_if rt then Some (Some (eval_if rt s))
      else if dec_sym rt head = symrepr_let rt then map_option Some (eval_let rt s)
      else Some None)"

text \<open>The application: what follows the special forms in the case \<^verbatim>\<open>PTR_TYPE_CONS\<close>.\<close>

definition eval_application :: "'h runtime \<Rightarrow> 'h eval_state \<Rightarrow> VALUE \<Rightarrow> 'h eval_state" where
  "eval_application rt s head =
     (let h = cons_heap s;
          K1 = push_u32_2 (ctx_K s) head (enc_u rt FUNCTION)
      in if type_of rt (cdr rt h (ctx_curr_exp s)) = VAL_TYPE_SYMBOL \<and>
            cdr rt h (ctx_curr_exp s) = NIL rt
         then s\<lparr>ctx_K := K1, app_cont := True, r_value := NIL rt\<rparr>
         else s\<lparr>ctx_K := push_u32_4 K1 (ctx_curr_env s) (NIL rt)
                             (cdr rt h (cdr rt h (ctx_curr_exp s))) (enc_u rt ARG_LIST),
                 ctx_curr_exp := car rt h (cdr rt h (ctx_curr_exp s))\<rparr>)"

text \<open>
  The \<^verbatim>\<open>switch (type_of(ctx->curr_exp))\<close> of the loop body, entered with \<^verbatim>\<open>app_cont\<close>
  false.
\<close>

definition eval_dispatch :: "'h runtime \<Rightarrow> 'h eval_state \<Rightarrow> 'h eval_state option" where
  "eval_dispatch rt s =
     (let h = cons_heap s; t = type_of rt (ctx_curr_exp s)
      in if t = VAL_TYPE_SYMBOL then
           (case env_lookup rt h (ctx_curr_exp s) (ctx_curr_env s) of
              Some value \<Rightarrow> Some (s\<lparr>app_cont := True, r_value := value\<rparr>)
            | None \<Rightarrow>
                (case env_lookup rt h (ctx_curr_exp s) (eval_cps_global_env s) of
                   Some value \<Rightarrow> Some (s\<lparr>app_cont := True, r_value := value\<rparr>)
                 | None \<Rightarrow>
                     Some (s\<lparr>r_value := enc_sym rt (symrepr_eerror rt), done_flag := True\<rparr>)))
         else if t \<in> {PTR_TYPE_BOXED_F, PTR_TYPE_BOXED_U, PTR_TYPE_BOXED_I, VAL_TYPE_I,
                       VAL_TYPE_U, VAL_TYPE_CHAR, PTR_TYPE_ARRAY} then
           Some (s\<lparr>app_cont := True, r_value := ctx_curr_exp s\<rparr>)
         else if t \<in> {PTR_TYPE_REF, PTR_TYPE_STREAM} then
           Some (s\<lparr>r_value := enc_sym rt (symrepr_eerror rt), done_flag := True\<rparr>)
         else if t = PTR_TYPE_CONS then
           (let head = car rt h (ctx_curr_exp s)
            in if type_of rt head = VAL_TYPE_SYMBOL then
                 do {
                   special \<leftarrow> eval_special_form rt s head;
                   case special of
                     Some s' \<Rightarrow> Some s'
                   | None \<Rightarrow> Some (eval_application rt s head)
                 }
               else Some (eval_application rt s head))
         else Some (s\<lparr>done_flag := True, r_value := enc_sym rt (symrepr_eerror rt)\<rparr>))"

text \<open>
  One pass through the body of \<^verbatim>\<open>while (!done)\<close>: the collection when one is due, then
  \<open>eval_step\<close>, which is \<^verbatim>\<open>apply_continuation\<close> on \<^verbatim>\<open>r\<close> when \<^verbatim>\<open>app_cont\<close> is set and the
  dispatch on \<^verbatim>\<open>ctx->curr_exp\<close> otherwise.
\<close>

definition eval_step :: "'h runtime \<Rightarrow> 'h eval_state \<Rightarrow> 'h eval_state option" where
  "eval_step rt s =
     (if app_cont s then
        do {
          (res, s') \<leftarrow> apply_continuation rt s (r_value s);
          Some (s'\<lparr>r_value := res\<rparr>)
        }
      else eval_dispatch rt (s\<lparr>app_cont := False\<rparr>))"

definition collect_garbage :: "'h runtime \<Rightarrow> 'h eval_state \<Rightarrow> 'h" where
  "collect_garbage rt s =
     heap_perform_gc_aux rt (cons_heap s) (eval_cps_global_env s) (ctx_curr_env s)
       (ctx_curr_exp s) (ctx_program s) (r_value s) (ctx_K s)"

definition eval_iteration :: "'h runtime \<Rightarrow> 'h eval_state \<Rightarrow> 'h eval_state option" where
  "eval_iteration rt s =
     (if perform_gc s then
        (if non_gc s = 0 then
           Some (s\<lparr>done_flag := True, r_value := enc_sym rt (symrepr_merror rt)\<rparr>)
         else
           eval_step rt (s\<lparr>non_gc := 0, cons_heap := collect_garbage rt s, perform_gc := False\<rparr>))
      else eval_step rt (s\<lparr>non_gc := non_gc s + 1\<rparr>))"

partial_function (option) run_eval_loop ::
  "'h runtime \<Rightarrow> 'h eval_state \<Rightarrow> 'h eval_state option" where
  "run_eval_loop rt s =
     (if done_flag s then Some s
      else do { s' \<leftarrow> eval_iteration rt s; run_eval_loop rt s' })"

declare run_eval_loop.simps [code]

text \<open>
  \<^verbatim>\<open>run_eval(ctx)\<close>: \<^verbatim>\<open>DONE\<close> is pushed and the local variables are initialised, whatever
  their fields in the state passed in hold; then the loop runs. The value returned is
  \<open>r_value\<close> of the final state.
\<close>

definition run_eval_init :: "'h runtime \<Rightarrow> 'h eval_state \<Rightarrow> 'h eval_state" where
  "run_eval_init rt s =
     s\<lparr>ctx_K := push_u32 (ctx_K s) (enc_u rt DONE), r_value := NIL rt, done_flag := False,
       perform_gc := False, app_cont := False, non_gc := 0\<rparr>"

definition run_eval :: "'h runtime \<Rightarrow> 'h eval_state \<Rightarrow> 'h eval_state option" where
  "run_eval rt s = run_eval_loop rt (run_eval_init rt s)"

section \<open>A runtime for the evaluator\<close>

text \<open>
  An implementation of what the evaluator calls, over the cons heap of the first
  sections, on which the evaluator can be run. Every definition of this section is
  modelled from the spec, the sources of the functions being missing.
\<close>

text \<open>
  Modelled from the spec: the value layout of section 3 (\<^verbatim>\<open>heap.h\<close> is missing). Of the
  immediates \<^verbatim>\<open>1xxx\<close> the low three bits select, in the order of the spec, small int
  (\<^verbatim>\<open>000\<close>), small uint (\<^verbatim>\<open>001\<close>), char (\<^verbatim>\<open>010\<close>) and symbol (\<^verbatim>\<open>011\<close>).
\<close>

definition spec_type_of :: "VALUE \<Rightarrow> value_type" where
  "spec_type_of x =
     (let t = lbm_type_of x
      in if t = 0x0 then PTR_TYPE_CONS
         else if t = 0x1 then PTR_TYPE_BOXED_I
         else if t = 0x2 then PTR_TYPE_BOXED_U
         else if t = 0x3 then PTR_TYPE_BOXED_F
         else if t = 0x4 then PTR_TYPE_ARRAY
         else if t = 0x5 then PTR_TYPE_STREAM
         else if t = 0x8 then VAL_TYPE_I
         else if t = 0x9 then VAL_TYPE_U
         else if t = 0xA then VAL_TYPE_CHAR
         else if t = 0xB then VAL_TYPE_SYMBOL
         else TYPE_OTHER)"

definition spec_enc_u :: "UINT \<Rightarrow> VALUE" where
  "spec_enc_u x = push_bit 4 x OR 0x9"

definition spec_dec :: "VALUE \<Rightarrow> UINT" where
  "spec_dec x = drop_bit 4 x"

text \<open>Modelled from the spec: the error kinds of section 7 (\<^verbatim>\<open>symrepr.c\<close> is missing).\<close>

definition spec_is_error :: "UINT \<Rightarrow> bool" where
  "spec_is_error x \<longleftrightarrow>
     lbm_is_symbol x \<and> unat ERR_TYPE \<le> unat (spec_dec x) \<and> unat (spec_dec x) \<le> unat ERR_FATAL"

text \<open>
  Modelled from the spec: \<^verbatim>\<open>car\<close>, \<^verbatim>\<open>cdr\<close>, \<^verbatim>\<open>set-cdr\<close> and allocation of the cons heap,
  sections 2 and 4.1 (\<^verbatim>\<open>heap.c\<close> is missing). An operand that is no cons-cell pointer has
  the wrong type tag, which section 7 calls \<^verbatim>\<open>ERR_TYPE\<close>.
\<close>

definition spec_car :: "lbm_heap_state_t \<Rightarrow> VALUE \<Rightarrow> VALUE" where
  "spec_car h c =
     (if lbm_is_cons_cell h c then fst (heap h ! unat (lbm_dec_ptr c)) else ENC_SYM_TERROR)"

definition spec_cdr :: "lbm_heap_state_t \<Rightarrow> VALUE \<Rightarrow> VALUE" where
  "spec_cdr h c =
     (if lbm_is_cons_cell h c then snd (heap h ! unat (lbm_dec_ptr c)) else ENC_SYM_TERROR)"

definition spec_cons :: "lbm_heap_state_t \<Rightarrow> VALUE \<Rightarrow> VALUE \<Rightarrow> VALUE \<times> lbm_heap_state_t" where
  "spec_cons h a d = lbm_heap_allocate_cell h LBM_TYPE_CONS a d"

definition spec_set_cdr :: "lbm_heap_state_t \<Rightarrow> VALUE \<Rightarrow> VALUE \<Rightarrow> lbm_heap_state_t" where
  "spec_set_cdr h c v =
     (if lbm_is_cons_cell h c then
        let ix = unat (lbm_dec_ptr c) in h\<lparr>heap := (heap h)[ix := (fst (heap h ! ix), v)]\<rparr>
      else h)"

text \<open>
  Modelled from the spec: the list functions of \<^verbatim>\<open>heap.c\<close> and the association lists of
  section 3 (\<^verbatim>\<open>env.c\<close> is missing). Each walks a list of cells; the number of cells of the
  heap bounds the walk, a list without repetition having no more.
\<close>

fun list_length_upto :: "nat \<Rightarrow> lbm_heap_state_t \<Rightarrow> VALUE \<Rightarrow> nat" where
  "list_length_upto 0 h c = 0"
| "list_length_upto (Suc n) h c =
     (if lbm_is_cons_cell h c then Suc (list_length_upto n h (spec_cdr h c)) else 0)"

definition spec_length :: "lbm_heap_state_t \<Rightarrow> VALUE \<Rightarrow> UINT" where
  "spec_length h c = of_nat (list_length_upto (length (heap h)) h c)"

fun reverse_upto ::
  "nat \<Rightarrow> lbm_heap_state_t \<Rightarrow> VALUE \<Rightarrow> VALUE \<Rightarrow> VALUE \<times> lbm_heap_state_t" where
  "reverse_upto 0 h c acc = (acc, h)"
| "reverse_upto (Suc n) h c acc =
     (if lbm_is_cons_cell h c then
        (let (acc', h') = spec_cons h (spec_car h c) acc
         in if lbm_is_symbol acc' then (acc', h')
            else reverse_upto n h' (spec_cdr h c) acc')
      else (acc, h))"

definition spec_reverse :: "lbm_heap_state_t \<Rightarrow> VALUE \<Rightarrow> VALUE \<times> lbm_heap_state_t" where
  "spec_reverse h c = reverse_upto (length (heap h)) h c ENC_SYM_NIL"

fun env_lookup_upto :: "nat \<Rightarrow> lbm_heap_state_t \<Rightarrow> VALUE \<Rightarrow> VALUE \<Rightarrow> VALUE option" where
  "env_lookup_upto 0 h key env = None"
| "env_lookup_upto (Suc n) h key env =
     (if lbm_is_cons_cell h env then
        (if spec_car h (spec_car h env) = key then Some (spec_cdr h (spec_car h env))
         else env_lookup_upto n h key (spec_cdr h env))
      else None)"

definition spec_env_lookup :: "lbm_heap_state_t \<Rightarrow> VALUE \<Rightarrow> VALUE \<Rightarrow> VALUE option" where
  "spec_env_lookup h key env = env_lookup_upto (length (heap h)) h key env"

fun env_copy_upto ::
  "nat \<Rightarrow> lbm_heap_state_t \<Rightarrow> VALUE \<Rightarrow> VALUE \<Rightarrow> VALUE option \<times> lbm_heap_state_t" where
  "env_copy_upto 0 h env acc = (Some acc, h)"
| "env_copy_upto (Suc n) h env acc =
     (if lbm_is_cons_cell h env then
        (let (acc', h') = spec_cons h (spec_car h env) acc
         in if lbm_is_symbol acc' then (None, h')
            else env_copy_upto n h' (spec_cdr h env) acc')
      else (Some acc, h))"

definition spec_env_copy_shallow ::
  "lbm_heap_state_t \<Rightarrow> VALUE \<Rightarrow> VALUE option \<times> lbm_heap_state_t" where
  "spec_env_copy_shallow h env = env_copy_upto (length (heap h)) h env ENC_SYM_NIL"

fun env_build_upto ::
  "nat \<Rightarrow> lbm_heap_state_t \<Rightarrow> VALUE \<Rightarrow> VALUE \<Rightarrow> VALUE \<Rightarrow> VALUE option \<times> lbm_heap_state_t" where
  "env_build_upto 0 h params args env = (Some env, h)"
| "env_build_upto (Suc n) h params args env =
     (if lbm_is_cons_cell h params then
        (let (binding, h1) = spec_cons h (spec_car h params) (spec_car h args);
             (env', h2) = spec_cons h1 binding env
         in if lbm_is_symbol binding \<or> lbm_is_symbol env' then (None, h2)
            else env_build_upto n h2 (spec_cdr h params) (spec_cdr h args) env')
      else (Some env, h))"

definition spec_env_build_params_args ::
  "lbm_heap_state_t \<Rightarrow> VALUE \<Rightarrow> VALUE \<Rightarrow> VALUE \<Rightarrow> VALUE option \<times> lbm_heap_state_t" where
  "spec_env_build_params_args h params args env0 =
     env_build_upto (length (heap h)) h params args env0"

fun env_modify_upto ::
  "nat \<Rightarrow> lbm_heap_state_t \<Rightarrow> VALUE \<Rightarrow> VALUE \<Rightarrow> VALUE \<Rightarrow> lbm_heap_state_t" where
  "env_modify_upto 0 h env key val = h"
| "env_modify_upto (Suc n) h env key val =
     (if lbm_is_cons_cell h env then
        (if spec_car h (spec_car h env) = key then spec_set_cdr h (spec_car h env) val
         else env_modify_upto n h (spec_cdr h env) key val)
      else h)"

definition spec_env_modify_binding ::
  "lbm_heap_state_t \<Rightarrow> VALUE \<Rightarrow> VALUE \<Rightarrow> VALUE \<Rightarrow> lbm_heap_state_t" where
  "spec_env_modify_binding h env key val = env_modify_upto (length (heap h)) h env key val"

text \<open>
  Modelled from the spec: \<^verbatim>\<open>Collect()\<close> of section 4.1 (\<^verbatim>\<open>heap.c\<close> is missing). The mark
  phase follows the cons-cell pointers from the root words; every step marks a cell or
  drops a word, which bounds it. The sweep prepends every unmarked cell to the free list.
\<close>

fun gc_mark :: "nat \<Rightarrow> lbm_heap_state_t \<Rightarrow> VALUE list \<Rightarrow> nat list \<Rightarrow> nat list" where
  "gc_mark 0 h ws marked = marked"
| "gc_mark (Suc n) h [] marked = marked"
| "gc_mark (Suc n) h (w # ws) marked =
     (if lbm_is_cons_cell h w \<and> unat (lbm_dec_ptr w) \<notin> set marked
      then gc_mark n h (spec_car h w # spec_cdr h w # ws) (unat (lbm_dec_ptr w) # marked)
      else gc_mark n h ws marked)"

fun gc_sweep :: "nat list \<Rightarrow> nat list \<Rightarrow> lbm_heap_state_t \<Rightarrow> lbm_heap_state_t" where
  "gc_sweep marked [] h = h"
| "gc_sweep marked (i # ixs) h =
     (if i \<in> set marked then gc_sweep marked ixs h
      else gc_sweep marked ixs
             (h\<lparr>heap := (heap h)[i := (ENC_SYM_NIL, freelist h)],
                freelist := lbm_enc_cons_ptr (of_nat i)\<rparr>))"

definition spec_gc ::
  "lbm_heap_state_t \<Rightarrow> VALUE \<Rightarrow> VALUE \<Rightarrow> VALUE \<Rightarrow> VALUE \<Rightarrow> VALUE \<Rightarrow> VALUE list
     \<Rightarrow> lbm_heap_state_t" where
  "spec_gc h global_env curr_env curr_exp program r K =
     (let roots = global_env # curr_env # curr_exp # program # r # K;
          marked = gc_mark (length roots + 3 * length (heap h)) h roots []
      in gc_sweep marked (rev [0 ..< length (heap h)]) (h\<lparr>freelist := ENC_SYM_NIL\<rparr>))"

text \<open>
  Modelled from the spec: the record of the runtime (\<^verbatim>\<open>fundamental.c\<close> and
  \<^verbatim>\<open>bytecode.c\<close> are missing). Its table of fundamental operations is empty and it has no
  bytecode: \<^verbatim>\<open>is_fundamental\<close> is false of every value, \<^verbatim>\<open>fundamental_exec\<close> returns
  \<^verbatim>\<open>false\<close>, and \<^verbatim>\<open>bytecode_eval\<close> returns the evaluation error, each leaving the stack as
  it is. The symbols are those of section 3 of the spec and the two errors of the code.
\<close>

definition spec_runtime :: "lbm_heap_state_t runtime" where
  "spec_runtime =
     \<lparr>type_of = spec_type_of,
      enc_sym = lbm_enc_sym,
      dec_sym = spec_dec,
      enc_u = spec_enc_u,
      dec_u = spec_dec,
      symrepr_nil = SYM_NIL,
      symrepr_true = SYM_TRUE,
      symrepr_eerror = ERR_EVAL,
      symrepr_merror = ERR_OUT_OF_MEMORY,
      symrepr_quote = SYM_QUOTE,
      symrepr_define = SYM_DEFINE,
      symrepr_progn = SYM_PROGN,
      symrepr_lambda = SYM_LAMBDA,
      symrepr_if = SYM_IF,
      symrepr_let = SYM_LET,
      symrepr_closure = SYM_CLOSURE,
      symrepr_is_error = spec_is_error,
      car = spec_car,
      cdr = spec_cdr,
      cons = spec_cons,
      set_cdr = spec_set_cdr,
      length_list = spec_length,
      reverse = spec_reverse,
      env_lookup = spec_env_lookup,
      env_copy_shallow = spec_env_copy_shallow,
      env_build_params_args = spec_env_build_params_args,
      env_modify_binding = spec_env_modify_binding,
      is_fundamental = (\<lambda>v. False),
      fundamental_exec = (\<lambda>h K f. (False, K, h)),
      bytecode_eval = (\<lambda>h K bc. (lbm_enc_sym ERR_EVAL, K, h)),
      heap_perform_gc_aux = spec_gc\<rparr>"

section \<open>Notions used by the properties\<close>

subsection \<open>Of the evaluator\<close>

text \<open>
  The state in which one pass of the loop of \<^verbatim>\<open>run_eval\<close> reaches \<open>eval_step\<close>: after the
  collection when \<^verbatim>\<open>perform_gc\<close> was set, after \<^verbatim>\<open>non_gc++\<close> otherwise.
\<close>

definition step_entry :: "'h runtime \<Rightarrow> 'h eval_state \<Rightarrow> 'h eval_state" where
  "step_entry rt s =
     (if perform_gc s
      then s\<lparr>non_gc := 0, cons_heap := collect_garbage rt s, perform_gc := False\<rparr>
      else s\<lparr>non_gc := non_gc s + 1\<rparr>)"




text \<open>
  The reversal of the argument list at the start of the case \<^verbatim>\<open>FUNCTION_APP\<close>: \<^verbatim>\<open>args_rev\<close>
  with the heap after it, and whether it ran out of memory, which the code recognises by
  a symbol for the result.
\<close>

definition reversed_args :: "'h runtime \<Rightarrow> 'h \<Rightarrow> VALUE \<Rightarrow> VALUE \<times> 'h" where
  "reversed_args rt h args =
     (if type_of rt args = PTR_TYPE_CONS then reverse rt h args else (args, h))"

definition reversal_fails :: "'h runtime \<Rightarrow> 'h \<Rightarrow> VALUE \<Rightarrow> bool" where
  "reversal_fails rt h args \<longleftrightarrow>
     type_of rt args = PTR_TYPE_CONS \<and> type_of rt (fst (reverse rt h args)) = VAL_TYPE_SYMBOL"






text \<open>
  The step is \<^verbatim>\<open>apply_continuation\<close> on a \<^verbatim>\<open>FUNCTION_APP\<close> frame with the argument list
  \<open>args\<close> above the stack \<open>K0\<close>, and the function is of type \<^verbatim>\<open>PTR_TYPE_CONS\<close> (``its a
  closure'').
\<close>

definition applies_closure ::
  "'h runtime \<Rightarrow> 'h eval_state \<Rightarrow> VALUE \<Rightarrow> VALUE list \<Rightarrow> bool" where
  "applies_closure rt s args K0 \<longleftrightarrow>
     app_cont s \<and>
     (\<exists>k. ctx_K s = k # args # K0 \<and> dec_u rt k = FUNCTION_APP) \<and>
     type_of rt (r_value s) = PTR_TYPE_CONS"

subsection \<open>Programs for the runtime of the previous section\<close>

text \<open>
  The symbol \<^verbatim>\<open>x\<close> has the identifier \<^verbatim>\<open>0x20\<close>, so it is the word \<^verbatim>\<open>0x20B\<close>; \<^verbatim>\<open>nil\<close> is
  \<^verbatim>\<open>0x00B\<close>, \<^verbatim>\<open>define\<close> \<^verbatim>\<open>0x03B\<close>, \<^verbatim>\<open>lambda\<close> \<^verbatim>\<open>0x05B\<close>, the small int 1 \<^verbatim>\<open>0x018\<close>, and the pointer
  to cell \<open>i\<close> is \<open>16 * i\<close>. In every heap cell 0 is the pair \<^verbatim>\<open>(nil . nil)\<close> and cell 1 the
  global environment holding it, as \<^verbatim>\<open>eval_cps_init\<close> builds them; the last cell is the
  program, the list of the one form. The states are those in which \<^verbatim>\<open>eval_cps_program\<close>
  calls \<^verbatim>\<open>run_eval\<close>: the form in \<^verbatim>\<open>curr_exp\<close>, \<^verbatim>\<open>curr_env = NIL\<close>, the stack empty.
\<close>

text \<open>The form \<^verbatim>\<open>((lambda (x) x))\<close>, cells 2 to 6, with four free cells.\<close>

definition arity_heap :: lbm_heap_state_t where
  "arity_heap =
     \<lparr>heap = [(0x00B, 0x00B), (0x000, 0x00B),
              (0x030, 0x00B), (0x05B, 0x040), (0x050, 0x060), (0x20B, 0x00B), (0x20B, 0x00B),
              (0x00B, 0x080), (0x00B, 0x090), (0x00B, 0x0A0), (0x00B, 0x00B),
              (0x020, 0x00B)],
      freelist = 0x070\<rparr>"

definition arity_state :: "lbm_heap_state_t eval_state" where
  "arity_state =
     \<lparr>ctx_program = 0x0B0, ctx_curr_exp = 0x020, ctx_curr_env = 0x00B, ctx_K = [],
      eval_cps_global_env = 0x010, cons_heap = arity_heap, r_value = 0, done_flag = False,
      perform_gc = False, app_cont = False, non_gc = 0\<rparr>"

text \<open>
  The form \<^verbatim>\<open>((lambda (x) x) 1 2)\<close>, cells 2 to 8, with ten free cells; the small int 2 is
  the word \<^verbatim>\<open>0x028\<close>. After seven passes of the loop the closure, cell 14, is in \<^verbatim>\<open>r\<close>, and
  the \<^verbatim>\<open>FUNCTION_APP\<close> frame is on the stack with the list of the two evaluated arguments,
  cell 10, which the case \<^verbatim>\<open>ARG_LIST\<close> has built last argument first. Four free cells are
  left.
\<close>

definition two_args_heap :: lbm_heap_state_t where
  "two_args_heap =
     \<lparr>heap = [(0x00B, 0x00B), (0x000, 0x00B), (0x030, 0x070), (0x05B, 0x040),
              (0x050, 0x060), (0x20B, 0x00B), (0x20B, 0x00B), (0x018, 0x080),
              (0x028, 0x00B), (0x00B, 0x0A0), (0x00B, 0x0B0), (0x00B, 0x0C0),
              (0x00B, 0x0D0), (0x00B, 0x0E0), (0x00B, 0x0F0), (0x00B, 0x100),
              (0x00B, 0x110), (0x00B, 0x120), (0x00B, 0x00B), (0x020, 0x00B)],
      freelist = 0x090\<rparr>"

definition two_args_state :: "lbm_heap_state_t eval_state" where
  "two_args_state =
     \<lparr>ctx_program = 0x130, ctx_curr_exp = 0x020, ctx_curr_env = 0x00B, ctx_K = [],
      eval_cps_global_env = 0x010, cons_heap = two_args_heap, r_value = 0x000, done_flag = False,
      perform_gc = False, app_cont = False, non_gc = 0\<rparr>"

definition two_args_apply_heap :: lbm_heap_state_t where
  "two_args_apply_heap =
     \<lparr>heap = [(0x00B, 0x00B), (0x000, 0x00B), (0x030, 0x070), (0x05B, 0x040),
              (0x050, 0x060), (0x20B, 0x00B), (0x20B, 0x00B), (0x018, 0x080),
              (0x028, 0x00B), (0x018, 0x00B), (0x028, 0x090), (0x00B, 0x00B),
              (0x20B, 0x0B0), (0x050, 0x0C0), (0x08B, 0x0D0), (0x00B, 0x100),
              (0x00B, 0x110), (0x00B, 0x120), (0x00B, 0x00B), (0x020, 0x00B)],
      freelist = 0x0F0\<rparr>"

definition two_args_state_apply :: "lbm_heap_state_t eval_state" where
  "two_args_state_apply =
     \<lparr>ctx_program = 0x130, ctx_curr_exp = 0x030, ctx_curr_env = 0x00B, ctx_K = [0x39, 0xA0, 0x19],
      eval_cps_global_env = 0x010, cons_heap = two_args_apply_heap, r_value = 0x0E0, done_flag = False,
      perform_gc = False, app_cont = True, non_gc = 7\<rparr>"

text \<open>
  The same form with six free cells: the closure and the list of the arguments take them
  all, so that in the state after seven passes no cell is free, and none is garbage.
\<close>

definition two_args_tight_heap :: lbm_heap_state_t where
  "two_args_tight_heap =
     \<lparr>heap = [(0x00B, 0x00B), (0x000, 0x00B), (0x030, 0x070), (0x05B, 0x040),
              (0x050, 0x060), (0x20B, 0x00B), (0x20B, 0x00B), (0x018, 0x080),
              (0x028, 0x00B), (0x00B, 0x0A0), (0x00B, 0x0B0), (0x00B, 0x0C0),
              (0x00B, 0x0D0), (0x00B, 0x0E0), (0x00B, 0x00B), (0x020, 0x00B)],
      freelist = 0x090\<rparr>"

definition two_args_tight_state :: "lbm_heap_state_t eval_state" where
  "two_args_tight_state =
     \<lparr>ctx_program = 0x0F0, ctx_curr_exp = 0x020, ctx_curr_env = 0x00B, ctx_K = [],
      eval_cps_global_env = 0x010, cons_heap = two_args_tight_heap, r_value = 0x000, done_flag = False,
      perform_gc = False, app_cont = False, non_gc = 0\<rparr>"

definition two_args_tight_apply_heap :: lbm_heap_state_t where
  "two_args_tight_apply_heap =
     \<lparr>heap = [(0x00B, 0x00B), (0x000, 0x00B), (0x030, 0x070), (0x05B, 0x040),
              (0x050, 0x060), (0x20B, 0x00B), (0x20B, 0x00B), (0x018, 0x080),
              (0x028, 0x00B), (0x018, 0x00B), (0x028, 0x090), (0x00B, 0x00B),
              (0x20B, 0x0B0), (0x050, 0x0C0), (0x08B, 0x0D0), (0x020, 0x00B)],
      freelist = 0x00B\<rparr>"

definition two_args_tight_state_apply :: "lbm_heap_state_t eval_state" where
  "two_args_tight_state_apply =
     \<lparr>ctx_program = 0x0F0, ctx_curr_exp = 0x030, ctx_curr_env = 0x00B, ctx_K = [0x39, 0xA0, 0x19],
      eval_cps_global_env = 0x010, cons_heap = two_args_tight_apply_heap, r_value = 0x0E0, done_flag = False,
      perform_gc = False, app_cont = True, non_gc = 7\<rparr>"

text \<open>
  The form \<^verbatim>\<open>((lambda (x) x) 1)\<close>, cells 2 to 7, with ten free cells, and the state of its
  evaluation after five passes of the loop: the closure is cell 12, the list of the one
  evaluated argument cell 8, and five cells are free.
\<close>

definition one_arg_heap :: lbm_heap_state_t where
  "one_arg_heap =
     \<lparr>heap = [(0x00B, 0x00B), (0x000, 0x00B), (0x030, 0x070), (0x05B, 0x040),
              (0x050, 0x060), (0x20B, 0x00B), (0x20B, 0x00B), (0x018, 0x00B),
              (0x00B, 0x090), (0x00B, 0x0A0), (0x00B, 0x0B0), (0x00B, 0x0C0),
              (0x00B, 0x0D0), (0x00B, 0x0E0), (0x00B, 0x0F0), (0x00B, 0x100),
              (0x00B, 0x110), (0x00B, 0x00B), (0x020, 0x00B)],
      freelist = 0x080\<rparr>"

definition one_arg_state :: "lbm_heap_state_t eval_state" where
  "one_arg_state =
     \<lparr>ctx_program = 0x120, ctx_curr_exp = 0x020, ctx_curr_env = 0x00B, ctx_K = [],
      eval_cps_global_env = 0x010, cons_heap = one_arg_heap, r_value = 0x000, done_flag = False,
      perform_gc = False, app_cont = False, non_gc = 0\<rparr>"

definition one_arg_apply_heap :: lbm_heap_state_t where
  "one_arg_apply_heap =
     \<lparr>heap = [(0x00B, 0x00B), (0x000, 0x00B), (0x030, 0x070), (0x05B, 0x040),
              (0x050, 0x060), (0x20B, 0x00B), (0x20B, 0x00B), (0x018, 0x00B),
              (0x018, 0x00B), (0x00B, 0x00B), (0x20B, 0x090), (0x050, 0x0A0),
              (0x08B, 0x0B0), (0x00B, 0x0E0), (0x00B, 0x0F0), (0x00B, 0x100),
              (0x00B, 0x110), (0x00B, 0x00B), (0x020, 0x00B)],
      freelist = 0x0D0\<rparr>"

definition one_arg_state_apply :: "lbm_heap_state_t eval_state" where
  "one_arg_state_apply =
     \<lparr>ctx_program = 0x120, ctx_curr_exp = 0x030, ctx_curr_env = 0x00B, ctx_K = [0x39, 0x80, 0x19],
      eval_cps_global_env = 0x010, cons_heap = one_arg_apply_heap, r_value = 0x0C0, done_flag = False,
      perform_gc = False, app_cont = True, non_gc = 5\<rparr>"

text \<open>The variable \<^verbatim>\<open>x\<close>, which is bound nowhere.\<close>

definition unbound_state :: "lbm_heap_state_t eval_state" where
  "unbound_state =
     \<lparr>ctx_program = 0x020, ctx_curr_exp = 0x20B, ctx_curr_env = 0x00B, ctx_K = [],
      eval_cps_global_env = 0x010,
      cons_heap = \<lparr>heap = [(0x00B, 0x00B), (0x000, 0x00B), (0x20B, 0x00B)], freelist = 0x00B\<rparr>,
      r_value = 0, done_flag = False, perform_gc = False, app_cont = False, non_gc = 0\<rparr>"

text \<open>The form \<^verbatim>\<open>(define x 1)\<close>, cells 2 to 4, in a heap with no free cell.\<close>

definition define_heap :: lbm_heap_state_t where
  "define_heap =
     \<lparr>heap = [(0x00B, 0x00B), (0x000, 0x00B),
              (0x03B, 0x030), (0x20B, 0x040), (0x018, 0x00B),
              (0x020, 0x00B)],
      freelist = 0x00B\<rparr>"

definition define_state :: "lbm_heap_state_t eval_state" where
  "define_state =
     \<lparr>ctx_program = 0x050, ctx_curr_exp = 0x020, ctx_curr_env = 0x00B, ctx_K = [],
      eval_cps_global_env = 0x010, cons_heap = define_heap, r_value = 0, done_flag = False,
      perform_gc = False, app_cont = False, non_gc = 0\<rparr>"

text \<open>
  The state of that evaluation after two passes of the loop: the value 1 is in \<^verbatim>\<open>r\<close> and
  the \<^verbatim>\<open>SET_GLOBAL_ENV\<close> frame with the key \<^verbatim>\<open>x\<close> is on the stack.
\<close>

definition define_state_set :: "lbm_heap_state_t eval_state" where
  "define_state_set =
     \<lparr>ctx_program = 0x050, ctx_curr_exp = 0x018, ctx_curr_env = 0x00B,
      ctx_K = [0x29, 0x20B, 0x19],
      eval_cps_global_env = 0x010, cons_heap = define_heap, r_value = 0x018, done_flag = False,
      perform_gc = False, app_cont = True, non_gc = 2\<rparr>"

text \<open>
  The same form in a heap with no free cell and two cells of garbage, cells 5 and 6, which
  nothing refers to; and the state of its evaluation after two passes of the loop.
\<close>

definition define_garbage_heap :: lbm_heap_state_t where
  "define_garbage_heap =
     \<lparr>heap = [(0x00B, 0x00B), (0x000, 0x00B),
              (0x03B, 0x030), (0x20B, 0x040), (0x018, 0x00B),
              (0x00B, 0x00B), (0x00B, 0x00B),
              (0x020, 0x00B)],
      freelist = 0x00B\<rparr>"

definition define_garbage_state :: "lbm_heap_state_t eval_state" where
  "define_garbage_state =
     \<lparr>ctx_program = 0x070, ctx_curr_exp = 0x020, ctx_curr_env = 0x00B, ctx_K = [],
      eval_cps_global_env = 0x010, cons_heap = define_garbage_heap, r_value = 0,
      done_flag = False, perform_gc = False, app_cont = False, non_gc = 0\<rparr>"

definition define_garbage_state_set :: "lbm_heap_state_t eval_state" where
  "define_garbage_state_set =
     \<lparr>ctx_program = 0x070, ctx_curr_exp = 0x018, ctx_curr_env = 0x00B,
      ctx_K = [0x29, 0x20B, 0x19],
      eval_cps_global_env = 0x010, cons_heap = define_garbage_heap, r_value = 0x018,
      done_flag = False, perform_gc = False, app_cont = True, non_gc = 2\<rparr>"



text \<open>
  The form \<^verbatim>\<open>(let ((x 1)) x)\<close>, cells 2 to 7, in a heap with no free cell; \<^verbatim>\<open>let\<close> is the
  word \<^verbatim>\<open>0x07B\<close>.
\<close>

definition let_heap :: lbm_heap_state_t where
  "let_heap =
     \<lparr>heap = [(0x00B, 0x00B), (0x000, 0x00B),
              (0x07B, 0x030), (0x040, 0x070), (0x050, 0x00B), (0x20B, 0x060), (0x018, 0x00B),
              (0x20B, 0x00B),
              (0x020, 0x00B)],
      freelist = 0x00B\<rparr>"

definition let_state :: "lbm_heap_state_t eval_state" where
  "let_state =
     \<lparr>ctx_program = 0x080, ctx_curr_exp = 0x020, ctx_curr_env = 0x00B, ctx_K = [],
      eval_cps_global_env = 0x010, cons_heap = let_heap, r_value = 0, done_flag = False,
      perform_gc = False, app_cont = False, non_gc = 0\<rparr>"

subsection \<open>Of the defragmenting pool\<close>

text \<open>
  Modelled from the spec: the sweep of section 4.1 for one unmarked cell, which is
  prepended to the free list (\<^verbatim>\<open>heap.c\<close> is missing).
\<close>

definition heap_sweep_cell :: "lbm_heap_state_t \<Rightarrow> lbm_value \<Rightarrow> lbm_heap_state_t" where
  "heap_sweep_cell h c =
     h\<lparr>heap := (heap h)[unat (lbm_dec_ptr c) := (ENC_SYM_NIL, freelist h)],
       freelist := lbm_set_ptr_type c LBM_TYPE_CONS\<rparr>"

text \<open>
  A heap of two free cells and a pool of twelve data words at the address \<^verbatim>\<open>0x20000000\<close>.
  An array of 4 bytes and one of 8 bytes are allocated; then the collector frees the
  first: \<^verbatim>\<open>lbm_defrag_mem_free\<close> on its record, and its cell back to the free list.
\<close>

definition example_heap :: lbm_heap_state_t where
  "example_heap =
     \<lparr>heap = [(ENC_SYM_NIL, lbm_enc_cons_ptr 1), (ENC_SYM_NIL, ENC_SYM_NIL)],
      freelist = lbm_enc_cons_ptr 0\<rparr>"

definition example_defrag_mem :: lbm_uint where
  "example_defrag_mem = 0x20000000"

definition two_arrays :: "(lbm_uint list \<times> lbm_heap_state_t) option" where
  "two_arrays =
     do {
       (a, mem1, h1) \<leftarrow>
         lbm_defrag_mem_alloc example_defrag_mem 4 (defrag_mem_created 12) example_heap;
       (b, mem2, h2) \<leftarrow> lbm_defrag_mem_alloc example_defrag_mem 8 mem1 h1;
       Some (mem2, h2)
     }"

definition two_arrays_first_freed :: "(lbm_uint list \<times> lbm_heap_state_t) option" where
  "two_arrays_first_freed =
     do {
       (a, mem1, h1) \<leftarrow>
         lbm_defrag_mem_alloc example_defrag_mem 4 (defrag_mem_created 12) example_heap;
       (b, mem2, h2) \<leftarrow> lbm_defrag_mem_alloc example_defrag_mem 8 mem1 h1;
       mem3 \<leftarrow> lbm_defrag_mem_free mem2 (mem_data_ix 0);
       Some (mem3, heap_sweep_cell h2 a)
     }"

text \<open>
  The pool and the heap after the two allocations, and after the release: a hole of four
  words, then the record of the second array (size 8, data pointer, back-pointer to
  cell 1, two data words) at data index 4, which is the address \<^verbatim>\<open>0x20000018\<close>; and what
  \<^verbatim>\<open>lbm_defrag_mem_defrag\<close> makes of them.
\<close>

definition allocated_mem :: "lbm_uint list" where
  "allocated_mem = [12, 0,  4, 0x20000014, 0, 0,  8, 0x20000024, 1, 0, 0,  0, 0, 0]"

definition allocated_heap :: lbm_heap_state_t where
  "allocated_heap = \<lparr>heap = [(0x20000008, 0x12B), (0x20000018, 0x12B)], freelist = 0x00B\<rparr>"

definition fragmented_mem :: "lbm_uint list" where
  "fragmented_mem = [12, 0,  0, 0, 0, 0,  8, 0x20000024, 1, 0, 0,  0, 0, 0]"

definition fragmented_heap :: lbm_heap_state_t where
  "fragmented_heap = \<lparr>heap = [(0x00B, 0x00B), (0x20000018, 0x12B)], freelist = 0x000\<rparr>"

definition defragmented_mem :: "lbm_uint list" where
  "defragmented_mem = [12, 0,  0, 0, 0, 0,  0, 0x20000024, 1, 0, 0,  0, 0, 0]"

definition defragmented_heap :: lbm_heap_state_t where
  "defragmented_heap = \<lparr>heap = [(0x20000008, 0x00B), (0x20000018, 0x12B)], freelist = 0x000\<rparr>"

section \<open>Properties of the constant heap\<close>

lemma const_heap_write_length:
  "length (snd (const_heap_write mem ix w)) = length mem"
  by (simp add: const_heap_write_def)

lemma const_heap_write_keeps_set_slot:
  assumes "mem ! unat i = v" and "v \<noteq> 0xffffffff"
  shows "snd (const_heap_write mem ix w) ! unat i = v"
proof (cases "unat ix = unat i")
  case True
  with assms show ?thesis by (simp add: const_heap_write_def)
next
  case False
  with assms show ?thesis by (simp add: const_heap_write_def)
qed

lemma const_heap_write_seq_keeps_set_slot:
  "mem ! unat i = v \<Longrightarrow> v \<noteq> 0xffffffff \<Longrightarrow> const_heap_write_seq mem writes ! unat i = v"
proof (induction writes arbitrary: mem)
  case Nil
  then show ?case by simp
next
  case (Cons a writes)
  obtain ix w where a: "a = (ix, w)" by (cases a)
  from Cons.prems have "snd (const_heap_write mem ix w) ! unat i = v"
    by (rule const_heap_write_keeps_set_slot)
  with Cons.IH Cons.prems(2) a show ?case by simp
qed

lemma const_heap_write_stores:
  assumes "unat i < length mem" and "fst (const_heap_write mem i v)"
  shows "snd (const_heap_write mem i v) ! unat i = v"
  using assms by (auto simp: const_heap_write_def split: if_splits)

lemma const_heap_write_ok_iff:
  assumes "unat i < CONSTANT_MEMORY_SIZE"
  shows "fst (const_heap_write mem i w) \<longleftrightarrow> mem ! unat i = 0xffffffff \<or> mem ! unat i = w"
  using assms by (simp add: const_heap_write_def)

lemma erased_word_32: "(erased_word :: 32 word) = 0xffffffff"
  by (simp add: erased_word_def)

lemma erased_word_64: "(erased_word :: 64 word) \<noteq> 0xffffffff"
  by (simp add: erased_word_def)

text \<open>
  C1. On the build whose \<^verbatim>\<open>lbm_uint\<close> has 32 bits, where the literal \<^verbatim>\<open>0xffffffff\<close> that the
  code compares with is the erased word \<^verbatim>\<open>0xFF...FF\<close>, and for every in-capacity index
  \<open>i\<close>: a write to a slot holding the erased word succeeds; and once a value \<open>v\<close> other than
  the erased word has been written to slot \<open>i\<close>, then after any further sequence of writes
  a write of \<open>v'\<close> to slot \<open>i\<close> succeeds if and only if \<open>v' = v\<close>.
\<close>

theorem const_heap_write_once:
  fixes mem :: "lbm_uint list" and i w v v' :: lbm_uint
  assumes "length mem = CONSTANT_MEMORY_SIZE" and "unat i < CONSTANT_MEMORY_SIZE"
  shows "(mem ! unat i = erased_word \<longrightarrow> fst (const_heap_write mem i w)) \<and>
         (v \<noteq> erased_word \<and> fst (const_heap_write mem i v) \<longrightarrow>
            (fst (const_heap_write
                    (const_heap_write_seq (snd (const_heap_write mem i v)) writes) i v')
             \<longleftrightarrow> v' = v))"
proof (intro conjI impI)
  assume "mem ! unat i = erased_word"
  with assms(2) show "fst (const_heap_write mem i w)"
    by (simp add: const_heap_write_ok_iff erased_word_32)
next
  assume a: "v \<noteq> erased_word \<and> fst (const_heap_write mem i v)"
  then have ne: "v \<noteq> 0xffffffff" by (simp add: erased_word_32)
  let ?mem1 = "snd (const_heap_write mem i v)"
  let ?mem2 = "const_heap_write_seq ?mem1 writes"
  from assms a have "?mem1 ! unat i = v"
    by (simp add: const_heap_write_stores)
  with ne have "?mem2 ! unat i = v"
    by (simp add: const_heap_write_seq_keeps_set_slot)
  with ne assms(2) show "fst (const_heap_write ?mem2 i v') \<longleftrightarrow> v' = v"
    by (auto simp: const_heap_write_ok_iff)
qed

text \<open>
  Slot 7 of the erased array: 42 is written, then 99 to the same slot, 42 to slot 8 and the
  erased word to slot 7 are tried; after that slot 7 still takes 42 and refuses 43.
\<close>

theorem const_heap_write_once_witness:
  "length (constants_memory_erased :: lbm_uint list) = CONSTANT_MEMORY_SIZE \<and>
   unat (7 :: lbm_uint) < CONSTANT_MEMORY_SIZE \<and>
   (constants_memory_erased :: lbm_uint list) ! unat (7 :: lbm_uint) = erased_word \<and>
   (0x2A :: lbm_uint) \<noteq> erased_word \<and>
   fst (const_heap_write constants_memory_erased 7 (0x2A :: lbm_uint)) \<and>
   (fst (const_heap_write
          (const_heap_write_seq (snd (const_heap_write constants_memory_erased 7 0x2A))
             [(7, 0x63), (8, 0x2A), (7, erased_word)]) 7 (0x2A :: lbm_uint))) \<and>
   \<not> fst (const_heap_write
          (const_heap_write_seq (snd (const_heap_write constants_memory_erased 7 0x2A))
             [(7, 0x63), (8, 0x2A), (7, erased_word)]) 7 (0x2B :: lbm_uint))"
proof -
  let ?mem = "constants_memory_erased :: lbm_uint list"
  let ?writes = "[(7, 0x63), (8, 0x2A), (7, erased_word)] :: (lbm_uint \<times> lbm_uint) list"
  have len: "length ?mem = CONSTANT_MEMORY_SIZE"
    by (simp add: constants_memory_erased_def)
  have ix: "unat (7 :: lbm_uint) < CONSTANT_MEMORY_SIZE"
    by (simp add: CONSTANT_MEMORY_SIZE_def)
  have erased: "?mem ! unat (7 :: lbm_uint) = erased_word"
    by (simp add: constants_memory_erased_def CONSTANT_MEMORY_SIZE_def)
  have ne: "(0x2A :: lbm_uint) \<noteq> erased_word" "(0x2B :: lbm_uint) \<noteq> 0x2A"
    by (simp_all add: erased_word_def)
  from const_heap_write_once [OF len ix, of "0x2A" "0x2A" ?writes "0x2A"]
    const_heap_write_once [OF len ix, of "0x2A" "0x2A" ?writes "0x2B"]
    len ix erased ne
  show ?thesis by blast
qed

text \<open>
  The claim without the side condition on \<open>v\<close> fails on the same build: a write of the
  erased word succeeds and leaves the slot erased, so a later, different word is accepted.
\<close>

theorem const_heap_write_sentinel_counterexample:
  "fst (const_heap_write constants_memory_erased 0 (erased_word :: lbm_uint)) \<and>
   fst (const_heap_write (snd (const_heap_write constants_memory_erased 0 erased_word)) 0
          (5 :: lbm_uint)) \<and>
   (5 :: lbm_uint) \<noteq> erased_word"
  by (simp add: const_heap_write_def constants_memory_erased_def CONSTANT_MEMORY_SIZE_def
      erased_word_def)

text \<open>
  The build with a 64-bit \<^verbatim>\<open>lbm_uint\<close> is left out of the property. There the literal
  \<^verbatim>\<open>0xffffffff\<close> has its upper 32 bits clear and is not the erased word, so that no slot of
  the erased array is recognised as unwritten: a write to it succeeds only if it writes the
  erased word again, and the array can take no constant.
\<close>

lemma const_heap_write_erased_64:
  fixes i w :: "64 word"
  assumes "unat i < CONSTANT_MEMORY_SIZE"
  shows "fst (const_heap_write constants_memory_erased i w) \<longleftrightarrow> w = erased_word"
  using assms erased_word_64
  by (auto simp: const_heap_write_def constants_memory_erased_def)

section \<open>Properties of the defragmenting pool\<close>

subsection \<open>What a successful allocation establishes\<close>

lemma cons_ptr_roundtrip:
  assumes "lbm_type_of c = LBM_TYPE_CONS"
  shows "lbm_enc_cons_ptr (lbm_dec_ptr c) = c"
proof -
  have "take_bit 4 c = 0"
    using assms by (simp add: lbm_type_of_def LBM_TYPE_CONS_def take_bit_eq_mask mask_eq_exp_minus_1)
  with bits_ident [of 4 c] show ?thesis
    by (simp add: lbm_enc_cons_ptr_def lbm_dec_ptr_def LBM_TYPE_CONS_def)
qed

lemma word_and_not_of_and_zero:
  fixes x m :: "'a::len word"
  assumes "x AND m = 0"
  shows "x AND NOT m = x"
proof -
  have "x AND NOT m = (x AND m) OR (x AND NOT m)" using assms by simp
  also have "\<dots> = x AND (m OR NOT m)" by (simp only: bit.conj_disj_distrib)
  also have "\<dots> = x" by simp
  finally show ?thesis .
qed

lemma set_ptr_type_cons:
  assumes "lbm_type_of c = LBM_TYPE_CONS"
  shows "lbm_set_ptr_type c LBM_TYPE_CONS = c"
proof -
  from assms have "c AND 0xF = 0" by (simp add: lbm_type_of_def LBM_TYPE_CONS_def)
  from word_and_not_of_and_zero [OF this] show ?thesis
    by (simp add: lbm_set_ptr_type_def LBM_TYPE_CONS_def)
qed

lemma lbm_heap_allocate_cell_cons:
  assumes "lbm_heap_allocate_cell h0 LBM_TYPE_CONS a d = (cell, h)" "\<not> lbm_is_symbol cell"
  shows "lbm_is_cons_cell h cell"
proof -
  have ms: "lbm_is_symbol ENC_SYM_MERROR"
    by (simp add: lbm_is_symbol_def ENC_SYM_MERROR_def lbm_enc_sym_def lbm_type_of_def
        LBM_TYPE_SYMBOL_def ERR_OUT_OF_MEMORY_def)
  from assms ms have c: "lbm_is_cons_cell h0 (freelist h0)"
    by (auto simp: lbm_heap_allocate_cell_def split: if_splits)
  then have t: "lbm_type_of (freelist h0) = LBM_TYPE_CONS" by (simp add: lbm_is_cons_cell_def)
  from assms(1) c have "cell = freelist h0" "length (heap h) = length (heap h0)"
    by (auto simp: lbm_heap_allocate_cell_def Let_def set_ptr_type_cons [OF t])
  with c show ?thesis by (simp add: lbm_is_cons_cell_def)
qed

lemma lbm_set_car_length: "length (heap (lbm_set_car h c v)) = length (heap h)"
  by (simp add: lbm_set_car_def Let_def)

lemma defrag_loop_heap_length_aux:
  assumes "defrag_loop defrag_mem mem_size i hole_start mem h = Some r"
  shows "length (heap (snd r)) = length (heap h)"
proof (rule defrag_loop.raw_induct
    [where P = "\<lambda>defrag_mem mem_size i hole_start mem h r. length (heap (snd r)) = length (heap h)",
     OF _ assms])
  fix f :: "lbm_uint \<Rightarrow> lbm_uint \<Rightarrow> lbm_uint \<Rightarrow> lbm_uint \<Rightarrow> lbm_uint list \<Rightarrow> lbm_heap_state_t
               \<Rightarrow> (lbm_uint list \<times> lbm_heap_state_t) option"
    and defrag_mem mem_size i hole_start mem h r
  assume IH: "\<And>defrag_mem mem_size i hole_start mem h r.
      f defrag_mem mem_size i hole_start mem h = Some r \<Longrightarrow> length (heap (snd r)) = length (heap h)"
    and body: "(if i < mem_size
         then mem_read mem (mem_data_ix i) \<bind>
              (\<lambda>w. if w \<noteq> 0
                   then let alloc_bytes = w; alloc_words = bs2ws alloc_bytes
                        in if hole_start = i
                           then f defrag_mem mem_size (i + (alloc_words + 3))
                                 (i + (alloc_words + 3)) mem h
                           else let move_dist = i - hole_start; clear_ix = i - move_dist
                                in memmove_words mem (mem_data_ix hole_start) (mem_data_ix i)
                                    ((alloc_words + 3) * 4) \<bind>
                                   (\<lambda>mem1. memset0_words mem1 (mem_data_ix clear_ix)
                                             (move_dist * 4) \<bind>
                                            (\<lambda>mem2. mem_read mem2 (mem_data_ix hole_start + 2) \<bind>
                                                     (\<lambda>cell. let h' = lbm_set_car h cell (mem_data_addr defrag_mem hole_start)
                                                              in f defrag_mem mem_size (i + (alloc_words + 3))
                                                                  (hole_start + (alloc_words + 3)) mem2 h')))
                   else f defrag_mem mem_size (i + 1) hole_start mem h)
         else Some (mem, h)) = Some r"
  from body show "length (heap (snd r)) = length (heap h)"
    by (auto simp: Let_def lbm_set_car_length split: if_splits Option.bind_splits dest!: IH)
qed

lemma defrag_loop_heap_length:
  "defrag_loop defrag_mem mem_size i hole_start mem h = Some (mem', h') \<Longrightarrow>
   length (heap h') = length (heap h)"
  using defrag_loop_heap_length_aux [of defrag_mem mem_size i hole_start mem h "(mem', h')"]
  by simp

lemma lbm_cell_car_set_car:
  "lbm_is_cons_cell h c \<Longrightarrow> lbm_cell_car (lbm_set_car h c v) c = Some v"
  by (simp add: lbm_cell_car_def lbm_set_car_def lbm_is_cons_cell_def Let_def)

lemma lbm_is_cons_cell_length:
  "length (heap h') = length (heap h) \<Longrightarrow> lbm_is_cons_cell h' c = lbm_is_cons_cell h c"
  by (simp add: lbm_is_cons_cell_def)

lemma alloc_unfold:
  assumes "lbm_defrag_mem_alloc defrag_mem bytes mem h0 = Some (res, mem', h')"
    and "lbm_heap_allocate_cell h0 LBM_TYPE_CONS ENC_SYM_NIL ENC_SYM_DEFRAG_ARRAY_TYPE = (cell, h)"
    and "\<not> lbm_is_symbol cell"
  shows "\<exists>mem_size flags mem1 h1 alloc_found free_start.
    mem_read mem 0 = Some mem_size \<and> mem_read mem 1 = Some flags \<and>
    (if flags \<noteq> 0 then
           do {
             (m, hd) \<leftarrow> lbm_defrag_mem_defrag defrag_mem mem h;
             m' \<leftarrow> mem_write m 1 0;
             Some (m', hd)
           }
         else Some (mem, h)) = Some (mem1, h1) \<and>
    alloc_scan mem_size (bs2ws bytes + 3) mem1 0 INIT 0 0 = Some (alloc_found, free_start) \<and>
    (if alloc_found then
           do {
             let allocation = mem_data_ix free_start;
             mem2 \<leftarrow> mem_write mem1 allocation bytes;
             mem3 \<leftarrow> mem_write mem2 (allocation + 1) (mem_data_addr defrag_mem free_start + 4 * 3);
             mem4 \<leftarrow> mem_write mem3 (allocation + 2) (lbm_dec_ptr cell);
             let h2 = lbm_set_car h1 cell (mem_data_addr defrag_mem free_start);
             Some (lbm_set_ptr_type cell LBM_TYPE_ARRAY, mem4, h2)
           }
         else
           do {
             mem2 \<leftarrow> mem_write mem1 1 1;
             Some (ENC_SYM_MERROR, mem2, lbm_set_car_and_cdr h1 cell ENC_SYM_NIL ENC_SYM_NIL)
           }) = Some (res, mem', h')"
  using assms
  unfolding lbm_defrag_mem_alloc_def
  apply (simp only: Let_def prod.case if_False)
  apply (simp only: bind_eq_Some_conv split_paired_Ex prod.case)
  apply (elim exE conjE)
  apply (simp only: option.inject)
  apply (intro exI conjI)
       apply (rule refl)
      apply (rule refl)
     apply assumption
    apply assumption
  apply (simp only: Let_def bind_eq_Some_conv split: if_splits)
  done

text \<open>
  A successful \<^verbatim>\<open>lbm_defrag_mem_alloc\<close> links the record it writes: the record holds the
  size, its back-pointer is the cell returned, and that cell has the address of the record
  for its \<^verbatim>\<open>car\<close>.
\<close>

lemma lbm_defrag_mem_alloc_links:
  assumes "lbm_defrag_mem_alloc defrag_mem bytes mem h0 = Some (res, mem', h')"
    and "\<not> lbm_is_symbol res"
  shows "\<exists>i. mem_read mem' (mem_data_ix i) = Some bytes \<and>
             res = lbm_set_ptr_type (lbm_enc_cons_ptr (mem' ! (mem_data_ix i + 2))) LBM_TYPE_ARRAY \<and>
             lbm_cell_car h' (lbm_enc_cons_ptr (mem' ! (mem_data_ix i + 2)))
               = Some (mem_data_addr defrag_mem i)"
proof -
  obtain cell h where al:
    "lbm_heap_allocate_cell h0 LBM_TYPE_CONS ENC_SYM_NIL ENC_SYM_DEFRAG_ARRAY_TYPE = (cell, h)"
    by (cases "lbm_heap_allocate_cell h0 LBM_TYPE_CONS ENC_SYM_NIL ENC_SYM_DEFRAG_ARRAY_TYPE")
  have ms: "lbm_is_symbol ENC_SYM_MERROR"
    by (simp add: lbm_is_symbol_def ENC_SYM_MERROR_def lbm_enc_sym_def lbm_type_of_def
        LBM_TYPE_SYMBOL_def ERR_OUT_OF_MEMORY_def)
  have ns: "\<not> lbm_is_symbol cell"
  proof
    assume s: "lbm_is_symbol cell"
    with assms(1) al have "res = cell"
      unfolding lbm_defrag_mem_alloc_def by (simp only: Let_def prod.case if_True option.inject prod.inject)
    with assms(2) s show False by simp
  qed
  from lbm_heap_allocate_cell_cons [OF al ns] have cc: "lbm_is_cons_cell h cell" .
  then have rt: "lbm_enc_cons_ptr (lbm_dec_ptr cell) = cell"
    by (simp add: lbm_is_cons_cell_def cons_ptr_roundtrip)
  from alloc_unfold [OF assms(1) al ns] obtain flags :: lbm_uint and mem1 h1 alloc_found free_start
    where
    d: "(if flags \<noteq> 0 then
           do {
             (m, hd) \<leftarrow> lbm_defrag_mem_defrag defrag_mem mem h;
             m' \<leftarrow> mem_write m 1 0;
             Some (m', hd)
           }
         else Some (mem, h)) = Some (mem1, h1)"
    and f: "(if alloc_found then
           do {
             let allocation = mem_data_ix free_start;
             mem2 \<leftarrow> mem_write mem1 allocation bytes;
             mem3 \<leftarrow> mem_write mem2 (allocation + 1) (mem_data_addr defrag_mem free_start + 4 * 3);
             mem4 \<leftarrow> mem_write mem3 (allocation + 2) (lbm_dec_ptr cell);
             let h2 = lbm_set_car h1 cell (mem_data_addr defrag_mem free_start);
             Some (lbm_set_ptr_type cell LBM_TYPE_ARRAY, mem4, h2)
           }
         else
           do {
             mem2 \<leftarrow> mem_write mem1 1 1;
             Some (ENC_SYM_MERROR, mem2, lbm_set_car_and_cdr h1 cell ENC_SYM_NIL ENC_SYM_NIL)
           }) = Some (res, mem', h')"
    by blast
  have h1: "length (heap h1) = length (heap h)"
  proof (cases "flags \<noteq> 0")
    case True
    with d obtain m where "lbm_defrag_mem_defrag defrag_mem mem h = Some (m, h1)"
      by (auto simp: bind_eq_Some_conv)
    then show ?thesis
      by (auto simp: lbm_defrag_mem_defrag_def bind_eq_Some_conv dest: defrag_loop_heap_length)
  next
    case False
    with d show ?thesis by simp
  qed
  from f assms(2) ms have af: alloc_found
    by (cases alloc_found) (auto simp: bind_eq_Some_conv)
  with f obtain mem2 mem3 where
    w: "mem_write mem1 (mem_data_ix free_start) bytes = Some mem2"
      "mem_write mem2 (mem_data_ix free_start + 1) (mem_data_addr defrag_mem free_start + 4 * 3) = Some mem3"
      "mem_write mem3 (mem_data_ix free_start + 2) (lbm_dec_ptr cell) = Some mem'"
    and h': "h' = lbm_set_car h1 cell (mem_data_addr defrag_mem free_start)"
    and res: "res = lbm_set_ptr_type cell LBM_TYPE_ARRAY"
    by (auto simp: bind_eq_Some_conv Let_def)
  from w(1) have w1: "mem_data_ix free_start < length mem1"
    "mem2 = mem1[mem_data_ix free_start := bytes]"
    by (simp_all add: mem_write_def split: if_splits)
  from w(2) have w2:
    "mem3 = mem2[mem_data_ix free_start + 1 := mem_data_addr defrag_mem free_start + 4 * 3]"
    by (simp add: mem_write_def split: if_splits)
  from w(3) have w3: "mem_data_ix free_start + 2 < length mem3"
    "mem' = mem3[mem_data_ix free_start + 2 := lbm_dec_ptr cell]"
    by (simp_all add: mem_write_def split: if_splits)
  have m: "mem_read mem' (mem_data_ix free_start) = Some bytes"
    "mem' ! (mem_data_ix free_start + 2) = lbm_dec_ptr cell"
    using w1(1) w3(1) unfolding w3(2) w2 w1(2) by (simp_all add: mem_read_def)
  from cc lbm_is_cons_cell_length [OF h1, of cell] have "lbm_is_cons_cell h1 cell" by simp
  then have "lbm_cell_car h' cell = Some (mem_data_addr defrag_mem free_start)"
    unfolding h' by (rule lbm_cell_car_set_car)
  with m res rt show ?thesis
    by (intro exI [of _ free_start]) simp
qed

subsection \<open>What \<^verbatim>\<open>lbm_defrag_mem_defrag\<close> does to a fragmented pool\<close>

lemma two_arrays_eq: "two_arrays = Some (allocated_mem, allocated_heap)"
  by code_simp

lemma defrag_records_allocated: "defrag_records allocated_mem = [0, 4]"
  by (simp add: defrag_records_def mem_data_def DEFRAG_MEM_HEADER_SIZE_def bs2ws_def
      allocated_mem_def)

lemma allocated_linked_back:
  "record_linked_back example_defrag_mem allocated_mem allocated_heap 0"
  "record_linked_back example_defrag_mem allocated_mem allocated_heap 4"
  by (simp_all add: record_linked_back_def mem_data_def DEFRAG_MEM_HEADER_SIZE_def
      allocated_mem_def allocated_heap_def example_defrag_mem_def mem_data_addr_def
      lbm_cell_car_def lbm_is_cons_cell_def lbm_enc_cons_ptr_def lbm_dec_ptr_def
      lbm_type_of_def LBM_TYPE_CONS_def)

lemma two_arrays_first_freed_eq:
  "two_arrays_first_freed = Some (fragmented_mem, fragmented_heap)"
  by code_simp

lemma defrag_fragmented_eq:
  "lbm_defrag_mem_defrag example_defrag_mem fragmented_mem fragmented_heap
     = Some (defragmented_mem, defragmented_heap)"
  by code_simp

lemma defrag_records_fragmented: "defrag_records fragmented_mem = [4]"
  by (simp add: defrag_records_def mem_data_def DEFRAG_MEM_HEADER_SIZE_def bs2ws_def
      fragmented_mem_def)

lemma defrag_records_defragmented: "defrag_records defragmented_mem = [5]"
  by (simp add: defrag_records_def mem_data_def DEFRAG_MEM_HEADER_SIZE_def bs2ws_def
      defragmented_mem_def)

lemma fragmented_linked_back:
  "record_linked_back example_defrag_mem fragmented_mem fragmented_heap 4"
  by (simp add: record_linked_back_def mem_data_def DEFRAG_MEM_HEADER_SIZE_def
      fragmented_mem_def fragmented_heap_def example_defrag_mem_def mem_data_addr_def
      lbm_cell_car_def lbm_is_cons_cell_def lbm_enc_cons_ptr_def lbm_dec_ptr_def
      lbm_type_of_def LBM_TYPE_CONS_def)

lemma defragmented_not_linked_back:
  "\<not> record_linked_back example_defrag_mem defragmented_mem defragmented_heap 5"
  by (simp add: record_linked_back_def mem_data_def DEFRAG_MEM_HEADER_SIZE_def
      defragmented_mem_def defragmented_heap_def example_defrag_mem_def mem_data_addr_def
      lbm_cell_car_def lbm_is_cons_cell_def lbm_enc_cons_ptr_def lbm_dec_ptr_def
      lbm_type_of_def LBM_TYPE_CONS_def)

text \<open>
  C2. The back-pointer invariant of the defrag pool says that for every populated record
  the cons cell stored as its back-pointer has \<^verbatim>\<open>car\<close> equal to the address of the record,
  after \<^verbatim>\<open>lbm_defrag_mem_alloc\<close> has succeeded and after \<^verbatim>\<open>lbm_defrag_mem_defrag\<close> has
  relocated records. The code does not keep it. After two allocations the invariant holds
  of the two records, and after the release of the first array it holds of the one record
  left, at data index 4, which is linked back from cell 1. \<^verbatim>\<open>lbm_defrag_mem_defrag\<close>
  then moves that record to data index 0 and clears
  \<^verbatim>\<open>move_dist\<close> words from \<^verbatim>\<open>clear_ix = i - move_dist\<close>, which is \<^verbatim>\<open>hole_start\<close>, the place it
  has just moved the record to: the size word, the data pointer and the back-pointer of
  the moved record are zeroed, the old words at indices 5 to 8 stay, and \<^verbatim>\<open>lbm_set_car\<close> is
  called with the zeroed back-pointer. The scan of the pool now finds a record at data
  index 5, and no cell is linked to it.
\<close>

theorem defrag_breaks_back_pointer:
  "two_arrays = Some (allocated_mem, allocated_heap) \<and>
   defrag_records allocated_mem = [0, 4] \<and>
   defrag_back_ptr_inv example_defrag_mem allocated_mem allocated_heap \<and>
   two_arrays_first_freed = Some (fragmented_mem, fragmented_heap) \<and>
   defrag_records fragmented_mem = [4] \<and>
   defrag_back_ptr_inv example_defrag_mem fragmented_mem fragmented_heap \<and>
   lbm_defrag_mem_defrag example_defrag_mem fragmented_mem fragmented_heap
     = Some (defragmented_mem, defragmented_heap) \<and>
   defrag_records defragmented_mem = [5] \<and>
   \<not> defrag_back_ptr_inv example_defrag_mem defragmented_mem defragmented_heap"
  by (simp add: two_arrays_eq defrag_records_allocated allocated_linked_back
      two_arrays_first_freed_eq defrag_fragmented_eq defrag_back_ptr_inv_def
      defrag_records_fragmented defrag_records_defragmented fragmented_linked_back
      defragmented_not_linked_back)

section \<open>Properties of the evaluator\<close>

subsection \<open>Which steps set \<^verbatim>\<open>perform_gc\<close>, and what they leave\<close>













lemma eval_iteration_step_entry:
  "\<not> (perform_gc s \<and> non_gc s = 0) \<Longrightarrow> eval_iteration rt s = eval_step rt (step_entry rt s)"
  by (auto simp: eval_iteration_def step_entry_def)


lemma run_eval_loop_done: "done_flag s \<Longrightarrow> run_eval_loop rt s = Some s"
  by (subst run_eval_loop.simps) simp

lemma run_eval_loop_iteration:
  "\<not> done_flag s \<Longrightarrow> eval_iteration rt s = Some s' \<Longrightarrow> run_eval_loop rt s = run_eval_loop rt s'"
  by (subst run_eval_loop.simps) simp

subsection \<open>A failed allocation sets \<^verbatim>\<open>perform_gc\<close>\<close>



lemma reversed_args_unfold:
  "reversed_args rt h args = (args_rev, h1) \<Longrightarrow>
   (if type_of rt args = PTR_TYPE_CONS then reverse rt h args else (args, h)) = (args_rev, h1)"
  by (simp add: reversed_args_def)

lemma reversal_succeeds:
  "\<not> reversal_fails rt h args \<Longrightarrow> reversed_args rt h args = (args_rev, h1) \<Longrightarrow>
   \<not> (type_of rt args = PTR_TYPE_CONS \<and> type_of rt args_rev = VAL_TYPE_SYMBOL)"
  by (auto simp: reversal_fails_def reversed_args_def split: if_splits)

lemma cont_function_app_reversal_fails:
  assumes "ctx_K s = args # K0" and "reversal_fails rt (cons_heap s) args"
  shows "cont_function_app rt s arg =
     Some (arg, s\<lparr>ctx_K := push_u32_2 K0 args (enc_u rt FUNCTION_APP),
                  cons_heap := snd (reversed_args rt (cons_heap s) args),
                  perform_gc := True, app_cont := True\<rparr>)"
  using assms
  by (auto simp: cont_function_app_def pop_u32_def reversal_fails_def reversed_args_def Let_def
      split: prod.splits)

lemma cont_function_app_closure:
  assumes "ctx_K s = args # K0" and "type_of rt arg = PTR_TYPE_CONS"
    and "\<not> reversal_fails rt (cons_heap s) args"
    and "reversed_args rt (cons_heap s) args = (args_rev, h1)"
  shows "cont_function_app rt s arg =
     (if length_list rt h1 (car rt h1 (cdr rt h1 arg)) \<noteq> length_list rt h1 args then
        Some (enc_sym rt (symrepr_eerror rt), s\<lparr>ctx_K := K0, cons_heap := h1, done_flag := True\<rparr>)
      else
        (case env_build_params_args rt h1 (car rt h1 (cdr rt h1 arg)) args_rev
                (car rt h1 (cdr rt h1 (cdr rt h1 (cdr rt h1 arg)))) of
           (None, h2) \<Rightarrow>
             Some (arg, s\<lparr>ctx_K := push_u32_2 K0 args (enc_u rt FUNCTION_APP),
                          cons_heap := h2, perform_gc := True, app_cont := True\<rparr>)
         | (Some local_env, h2) \<Rightarrow>
             Some (0, s\<lparr>ctx_K := K0, cons_heap := h2,
                        ctx_curr_exp := car rt h1 (cdr rt h1 (cdr rt h1 arg)),
                        ctx_curr_env := local_env\<rparr>)))"
  using assms(1,2) reversal_succeeds [OF assms(3,4)] reversed_args_unfold [OF assms(4)]
  by (auto simp: cont_function_app_def pop_u32_def Let_def split: prod.splits option.splits)




subsection \<open>Facts about the runtime and the example states\<close>

lemma spec_runtime_errors:
  "enc_sym spec_runtime (symrepr_merror spec_runtime) = lbm_enc_sym ERR_OUT_OF_MEMORY"
  "enc_sym spec_runtime (symrepr_eerror spec_runtime) = lbm_enc_sym ERR_EVAL"
  by (simp_all add: spec_runtime_def)



lemma define_state_set_reached:
  "eval_iteration spec_runtime (run_eval_init spec_runtime define_state)
     \<bind> eval_iteration spec_runtime = Some define_state_set"
  by code_simp




lemma define_garbage_state_set_reached:
  "eval_iteration spec_runtime (run_eval_init spec_runtime define_garbage_state)
     \<bind> eval_iteration spec_runtime = Some define_garbage_state_set"
  by code_simp







lemma two_args_state_apply_reached:
  "eval_iteration spec_runtime (run_eval_init spec_runtime two_args_state)
     \<bind> eval_iteration spec_runtime \<bind> eval_iteration spec_runtime
     \<bind> eval_iteration spec_runtime \<bind> eval_iteration spec_runtime
     \<bind> eval_iteration spec_runtime \<bind> eval_iteration spec_runtime
   = Some two_args_state_apply"
  by code_simp

lemma two_args_tight_state_apply_reached:
  "eval_iteration spec_runtime (run_eval_init spec_runtime two_args_tight_state)
     \<bind> eval_iteration spec_runtime \<bind> eval_iteration spec_runtime
     \<bind> eval_iteration spec_runtime \<bind> eval_iteration spec_runtime
     \<bind> eval_iteration spec_runtime \<bind> eval_iteration spec_runtime
   = Some two_args_tight_state_apply"
  by code_simp

lemma one_arg_state_apply_reached:
  "eval_iteration spec_runtime (run_eval_init spec_runtime one_arg_state)
     \<bind> eval_iteration spec_runtime \<bind> eval_iteration spec_runtime
     \<bind> eval_iteration spec_runtime \<bind> eval_iteration spec_runtime
   = Some one_arg_state_apply"
  by code_simp

lemma step_entry_apply:
  "step_entry spec_runtime two_args_state_apply = two_args_state_apply\<lparr>non_gc := 8\<rparr>"
  "step_entry spec_runtime two_args_tight_state_apply = two_args_tight_state_apply\<lparr>non_gc := 8\<rparr>"
  "step_entry spec_runtime one_arg_state_apply = one_arg_state_apply\<lparr>non_gc := 6\<rparr>"
  by (simp_all add: step_entry_def two_args_state_apply_def two_args_tight_state_apply_def
      one_arg_state_apply_def)

lemma applies_closure_apply:
  "applies_closure spec_runtime (step_entry spec_runtime two_args_state_apply) 0x0A0 [0x19]"
  "applies_closure spec_runtime (step_entry spec_runtime two_args_tight_state_apply) 0x0A0 [0x19]"
  "applies_closure spec_runtime (step_entry spec_runtime one_arg_state_apply) 0x080 [0x19]"
  unfolding step_entry_apply
  by (simp_all add: applies_closure_def two_args_state_apply_def
      two_args_tight_state_apply_def one_arg_state_apply_def spec_runtime_def
      spec_dec_def FUNCTION_APP_def spec_type_of_def lbm_type_of_def)

lemma reversal_apply:
  "\<not> reversal_fails spec_runtime (cons_heap (step_entry spec_runtime two_args_state_apply)) 0x0A0"
  "reversal_fails spec_runtime (cons_heap (step_entry spec_runtime two_args_tight_state_apply))
     0x0A0"
  "\<not> reversal_fails spec_runtime (cons_heap (step_entry spec_runtime one_arg_state_apply)) 0x080"
  by code_simp+

lemma two_args_state_apply_lengths:
  "length_list spec_runtime
     (snd (reversed_args spec_runtime (cons_heap two_args_state_apply) 0x0A0))
     (car spec_runtime (snd (reversed_args spec_runtime (cons_heap two_args_state_apply) 0x0A0))
       (cdr spec_runtime
          (snd (reversed_args spec_runtime (cons_heap two_args_state_apply) 0x0A0))
          (r_value two_args_state_apply))) = 1"
  "length_list spec_runtime
     (snd (reversed_args spec_runtime (cons_heap two_args_state_apply) 0x0A0)) 0x0A0 = 2"
  by code_simp+

lemma one_arg_state_apply_lengths:
  "length_list spec_runtime
     (snd (reversed_args spec_runtime (cons_heap one_arg_state_apply) 0x080))
     (car spec_runtime (snd (reversed_args spec_runtime (cons_heap one_arg_state_apply) 0x080))
       (cdr spec_runtime
          (snd (reversed_args spec_runtime (cons_heap one_arg_state_apply) 0x080))
          (r_value one_arg_state_apply))) = 1"
  "length_list spec_runtime
     (snd (reversed_args spec_runtime (cons_heap one_arg_state_apply) 0x080)) 0x080 = 1"
  by code_simp+

lemma two_args_tight_reversal_heap:
  "snd (reversed_args spec_runtime (cons_heap two_args_tight_state_apply) 0x0A0)
     = two_args_tight_apply_heap"
  by code_simp

subsection \<open>Recovery from a failed allocation\<close>




lemma spec_cons_full:
  "freelist h = ENC_SYM_NIL \<Longrightarrow> spec_cons h a d = (ENC_SYM_MERROR, h)"
  by (simp add: spec_cons_def lbm_heap_allocate_cell_def lbm_is_cons_cell_def ENC_SYM_NIL_def
      lbm_enc_sym_def lbm_type_of_def LBM_TYPE_CONS_def LBM_TYPE_SYMBOL_def SYM_NIL_def)

lemma merror_is_symbol: "spec_type_of ENC_SYM_MERROR = VAL_TYPE_SYMBOL"
  by (simp add: spec_type_of_def ENC_SYM_MERROR_def lbm_enc_sym_def lbm_type_of_def
      LBM_TYPE_SYMBOL_def ERR_OUT_OF_MEMORY_def)

lemma spec_runtime_sel:
  "type_of spec_runtime = spec_type_of" "cons spec_runtime = spec_cons"
  "car spec_runtime = spec_car" "cdr spec_runtime = spec_cdr"
  "dec_sym spec_runtime = spec_dec"
  "symrepr_quote spec_runtime = SYM_QUOTE" "symrepr_define spec_runtime = SYM_DEFINE"
  "symrepr_progn spec_runtime = SYM_PROGN" "symrepr_lambda spec_runtime = SYM_LAMBDA"
  "symrepr_if spec_runtime = SYM_IF" "symrepr_let spec_runtime = SYM_LET"
  by (simp_all add: spec_runtime_def)

lemma let_bind_keys_full_heap_aux:
  assumes "let_bind_keys rt h curr_v new_env pgc = Some y"
  shows "\<not> (rt = spec_runtime \<and> freelist h = ENC_SYM_NIL \<and> spec_type_of curr_v = PTR_TYPE_CONS)"
proof (rule let_bind_keys.raw_induct
    [where P = "\<lambda>rt h curr_v new_env pgc y.
       \<not> (rt = spec_runtime \<and> freelist h = ENC_SYM_NIL \<and> spec_type_of curr_v = PTR_TYPE_CONS)",
     OF _ assms])
  fix f :: "lbm_heap_state_t runtime \<Rightarrow> lbm_heap_state_t \<Rightarrow> VALUE \<Rightarrow> VALUE \<Rightarrow> bool
              \<Rightarrow> (lbm_heap_state_t \<times> VALUE \<times> bool) option"
    and rt h curr_v new_env pgc y
  assume IH: "\<And>rt h curr_v new_env pgc y. f rt h curr_v new_env pgc = Some y \<Longrightarrow>
      \<not> (rt = spec_runtime \<and> freelist h = ENC_SYM_NIL \<and> spec_type_of curr_v = PTR_TYPE_CONS)"
    and body: "(if type_of rt curr_v = PTR_TYPE_CONS
      then let key = car rt h (car rt h curr_v); val = NIL rt;
               (binding, h1) = cons rt h key val;
               (new_env', h2) = cons rt h1 binding new_env
           in if type_of rt binding = VAL_TYPE_SYMBOL \<or> type_of rt new_env' = VAL_TYPE_SYMBOL
              then f rt h2 curr_v new_env' True
              else f rt h2 (cdr rt h2 curr_v) new_env' pgc
      else Some (h, new_env, pgc)) = Some y"
  show "\<not> (rt = spec_runtime \<and> freelist h = ENC_SYM_NIL \<and> spec_type_of curr_v = PTR_TYPE_CONS)"
  proof
    assume a: "rt = spec_runtime \<and> freelist h = ENC_SYM_NIL \<and> spec_type_of curr_v = PTR_TYPE_CONS"
    then have full: "freelist h = ENC_SYM_NIL" by simp
    from body a have "f rt h curr_v ENC_SYM_MERROR True = Some y"
      by (simp add: Let_def spec_runtime_sel spec_cons_full [OF full] merror_is_symbol)
    from IH [OF this] a show False by blast
  qed
qed

lemma let_bind_keys_full_heap:
  "freelist h = ENC_SYM_NIL \<Longrightarrow> spec_type_of curr_v = PTR_TYPE_CONS \<Longrightarrow>
   let_bind_keys spec_runtime h curr_v new_env pgc = None"
  using let_bind_keys_full_heap_aux [of spec_runtime h curr_v new_env pgc]
  by (cases "let_bind_keys spec_runtime h curr_v new_env pgc") auto

text \<open>
  The \<^verbatim>\<open>let\<close> form is the exception to the recovery. In a heap without a free cell the
  inner loop of its dispatch fails to allocate, continues with the same binding and fails
  again, and so on: \<^verbatim>\<open>run_eval\<close> does not return for \<^verbatim>\<open>(let ((x 1)) x)\<close>.
\<close>

lemma let_never_returns: "run_eval spec_runtime let_state = None"
proof -
  let ?i = "run_eval_init spec_runtime let_state"
  let ?s = "?i\<lparr>non_gc := non_gc ?i + 1, app_cont := False\<rparr>"
  have i: "\<not> perform_gc ?i" "\<not> app_cont ?i" "\<not> done_flag ?i"
    by (simp_all add: run_eval_init_def)
  have h: "cons_heap ?s = let_heap" "ctx_curr_exp ?s = 0x020" "ctx_curr_env ?s = 0x00B"
    by (simp_all add: let_state_def run_eval_init_def)
  have full: "freelist let_heap = ENC_SYM_NIL"
    by (simp add: let_heap_def ENC_SYM_NIL_def lbm_enc_sym_def SYM_NIL_def LBM_TYPE_SYMBOL_def)
  have e: "spec_type_of 0x020 = PTR_TYPE_CONS" "spec_car let_heap 0x020 = 0x07B"
    "spec_type_of 0x07B = VAL_TYPE_SYMBOL" "spec_dec 0x07B = SYM_LET"
    "spec_car let_heap (spec_cdr let_heap 0x020) = 0x040" "spec_type_of 0x040 = PTR_TYPE_CONS"
    by (simp_all add: spec_type_of_def spec_car_def spec_cdr_def lbm_is_cons_cell_def
        lbm_type_of_def lbm_dec_ptr_def spec_dec_def LBM_TYPE_CONS_def let_heap_def SYM_LET_def)
  have sp: "eval_special_form spec_runtime ?s 0x07B = None"
    by (simp add: eval_special_form_def eval_let_def Let_def spec_runtime_sel h e
        let_bind_keys_full_heap [OF full]
        SYM_QUOTE_def SYM_DEFINE_def SYM_PROGN_def SYM_LAMBDA_def SYM_IF_def SYM_LET_def)
  have d: "eval_dispatch spec_runtime ?s = None"
    by (simp add: eval_dispatch_def Let_def spec_runtime_sel h e sp)
  have "eval_iteration spec_runtime ?i = eval_dispatch spec_runtime ?s"
    using i by (simp add: eval_iteration_def eval_step_def)
  with d have "eval_iteration spec_runtime ?i = None" by simp
  with i(3) show ?thesis
    unfolding run_eval_def by (subst run_eval_loop.simps) simp
qed

subsection \<open>The arity check of a closure application\<close>

text \<open>
  C4. An application of a closure is the step \<^verbatim>\<open>apply_continuation\<close> on a \<^verbatim>\<open>FUNCTION_APP\<close>
  frame with a function of type \<^verbatim>\<open>PTR_TYPE_CONS\<close>. The step first reverses the list of the
  evaluated arguments. If the reversal runs out of memory, nothing is compared: the frame
  is pushed again and \<^verbatim>\<open>perform_gc\<close> is set, which is the recovery of the previous
  subsection. Otherwise the length of the parameter list of the closure is compared with
  the length of the list of evaluated arguments: a mismatch ends the evaluation with the
  evaluation-error symbol \<^verbatim>\<open>symrepr_eerror\<close> as its result, and with equal lengths the pass
  does not end the evaluation. \<open>h1\<close> is the heap after the reversal.
\<close>

theorem closure_arity_check:
  assumes nd: "\<not> done_flag s" and ngu: "\<not> (perform_gc s \<and> non_gc s = 0)"
    and ac: "applies_closure rt (step_entry rt s) args K0"
    and h1: "h1 = snd (reversed_args rt (cons_heap (step_entry rt s)) args)"
  shows "(reversal_fails rt (cons_heap (step_entry rt s)) args \<longrightarrow>
            eval_iteration rt s =
              Some ((step_entry rt s)\<lparr>ctx_K := enc_u rt FUNCTION_APP # args # K0,
                      cons_heap := h1, perform_gc := True\<rparr>)) \<and>
         (\<not> reversal_fails rt (cons_heap (step_entry rt s)) args \<and>
          length_list rt h1 (car rt h1 (cdr rt h1 (r_value s))) \<noteq> length_list rt h1 args \<longrightarrow>
            run_eval_loop rt s =
              Some ((step_entry rt s)\<lparr>ctx_K := K0, cons_heap := h1, app_cont := False,
                      done_flag := True, r_value := enc_sym rt (symrepr_eerror rt)\<rparr>)) \<and>
         (\<not> reversal_fails rt (cons_heap (step_entry rt s)) args \<and>
          length_list rt h1 (car rt h1 (cdr rt h1 (r_value s))) = length_list rt h1 args \<longrightarrow>
            (\<exists>s'. eval_iteration rt s = Some s' \<and> \<not> done_flag s'))"
proof -
  let ?e = "step_entry rt s"
  have r: "r_value ?e = r_value s" and d: "\<not> done_flag ?e"
    using nd by (simp_all add: step_entry_def)
  from ac obtain k where app: "app_cont ?e" and K: "ctx_K ?e = k # args # K0"
    and k: "dec_u rt k = FUNCTION_APP" and ty: "type_of rt (r_value s) = PTR_TYPE_CONS"
    unfolding applies_closure_def r by blast
  let ?p = "?e\<lparr>ctx_K := args # K0, app_cont := False\<rparr>"
  have ap: "apply_continuation rt ?e (r_value s) = cont_function_app rt ?p (r_value s)"
    using K k
    by (simp add: apply_continuation_def pop_u32_def Let_def DONE_def EVAL_def
        SET_GLOBAL_ENV_def PROGN_REST_def FUNCTION_APP_def)
  have Kp: "ctx_K ?p = args # K0" and hp: "cons_heap ?p = cons_heap ?e" by simp_all
  have it: "eval_iteration rt s = eval_step rt ?e"
    using ngu by (rule eval_iteration_step_entry)
  have st: "eval_step rt ?e =
      do { (res, s') \<leftarrow> cont_function_app rt ?p (r_value s); Some (s'\<lparr>r_value := res\<rparr>) }"
    using app by (simp add: eval_step_def r ap)
  show ?thesis
  proof (intro conjI impI)
    assume rf: "reversal_fails rt (cons_heap ?e) args"
    then have "reversal_fails rt (cons_heap ?p) args" by simp
    from cont_function_app_reversal_fails [OF Kp this, of "r_value s"]
    have "eval_iteration rt s =
        Some (?p\<lparr>ctx_K := push_u32_2 K0 args (enc_u rt FUNCTION_APP), cons_heap := h1,
                  perform_gc := True, app_cont := True, r_value := r_value s\<rparr>)"
      by (simp add: it st h1)
    also have "?p\<lparr>ctx_K := push_u32_2 K0 args (enc_u rt FUNCTION_APP), cons_heap := h1,
                  perform_gc := True, app_cont := True, r_value := r_value s\<rparr>
        = ?e\<lparr>ctx_K := enc_u rt FUNCTION_APP # args # K0, cons_heap := h1, perform_gc := True\<rparr>"
      using app r by (intro eval_state.equality) (simp_all add: push_u32_2_def)
    finally show "eval_iteration rt s =
        Some (?e\<lparr>ctx_K := enc_u rt FUNCTION_APP # args # K0, cons_heap := h1,
                  perform_gc := True\<rparr>)" .
  next
    assume a: "\<not> reversal_fails rt (cons_heap ?e) args \<and>
      length_list rt h1 (car rt h1 (cdr rt h1 (r_value s))) \<noteq> length_list rt h1 args"
    then have nf: "\<not> reversal_fails rt (cons_heap ?p) args" by simp
    obtain args_rev where rv: "reversed_args rt (cons_heap ?p) args = (args_rev, h1)"
      unfolding h1 hp by (cases "reversed_args rt (cons_heap ?e) args") simp
    note cf = cont_function_app_closure [OF Kp ty nf rv]
    let ?f = "?e\<lparr>ctx_K := K0, cons_heap := h1, app_cont := False, done_flag := True,
                 r_value := enc_sym rt (symrepr_eerror rt)\<rparr>"
    from a have "eval_iteration rt s = Some ?f"
      by (simp add: it st cf)
    with nd show "run_eval_loop rt s = Some ?f"
      by (simp add: run_eval_loop_iteration run_eval_loop_done)
  next
    assume a: "\<not> reversal_fails rt (cons_heap ?e) args \<and>
      length_list rt h1 (car rt h1 (cdr rt h1 (r_value s))) = length_list rt h1 args"
    then have nf: "\<not> reversal_fails rt (cons_heap ?p) args" by simp
    obtain args_rev where rv: "reversed_args rt (cons_heap ?p) args = (args_rev, h1)"
      unfolding h1 hp by (cases "reversed_args rt (cons_heap ?e) args") simp
    note cf = cont_function_app_closure [OF Kp ty nf rv]
    from a d show "\<exists>s'. eval_iteration rt s = Some s' \<and> \<not> done_flag s'"
      by (auto simp: it st cf split: prod.splits option.splits)
  qed
qed

text \<open>
  The closure of one parameter in three applications. To two arguments with four cells
  free, the reversal succeeds and the mismatch ends the evaluation with the evaluation
  error. To two arguments with no cell free, the reversal fails and the pass requests a
  collection without comparing. To one argument, the pass goes on to the body.
\<close>

theorem closure_arity_check_witness:
  "map_option r_value (run_eval_loop spec_runtime two_args_state_apply)
     = Some (lbm_enc_sym ERR_EVAL) \<and>
   eval_iteration spec_runtime two_args_tight_state_apply
     = Some (two_args_tight_state_apply\<lparr>perform_gc := True, non_gc := 8\<rparr>) \<and>
   (\<exists>s'. eval_iteration spec_runtime one_arg_state_apply = Some s' \<and> \<not> done_flag s')"
proof -
  have nd: "\<not> done_flag two_args_state_apply" "\<not> done_flag two_args_tight_state_apply"
    "\<not> done_flag one_arg_state_apply"
    by (simp_all add: two_args_state_apply_def two_args_tight_state_apply_def
        one_arg_state_apply_def)
  have ngu: "\<not> (perform_gc two_args_state_apply \<and> non_gc two_args_state_apply = 0)"
    "\<not> (perform_gc two_args_tight_state_apply \<and> non_gc two_args_tight_state_apply = 0)"
    "\<not> (perform_gc one_arg_state_apply \<and> non_gc one_arg_state_apply = 0)"
    by (simp_all add: two_args_state_apply_def two_args_tight_state_apply_def
        one_arg_state_apply_def)
  have h: "cons_heap (step_entry spec_runtime two_args_state_apply)
             = cons_heap two_args_state_apply"
    "cons_heap (step_entry spec_runtime two_args_tight_state_apply)
             = cons_heap two_args_tight_state_apply"
    "cons_heap (step_entry spec_runtime one_arg_state_apply) = cons_heap one_arg_state_apply"
    by (simp_all add: step_entry_apply)
  from closure_arity_check [OF nd(1) ngu(1) applies_closure_apply(1) refl]
    reversal_apply(1) two_args_state_apply_lengths
  have a: "map_option r_value (run_eval_loop spec_runtime two_args_state_apply)
      = Some (lbm_enc_sym ERR_EVAL)"
    by (simp add: h spec_runtime_errors)
  from closure_arity_check [OF nd(2) ngu(2) applies_closure_apply(2) refl] reversal_apply(2)
  have "eval_iteration spec_runtime two_args_tight_state_apply =
      Some ((step_entry spec_runtime two_args_tight_state_apply)
              \<lparr>ctx_K := enc_u spec_runtime FUNCTION_APP # 0x0A0 # [0x19],
                cons_heap := snd (reversed_args spec_runtime
                  (cons_heap (step_entry spec_runtime two_args_tight_state_apply)) 0x0A0),
                perform_gc := True\<rparr>)"
    by blast
  also have "(step_entry spec_runtime two_args_tight_state_apply)
              \<lparr>ctx_K := enc_u spec_runtime FUNCTION_APP # 0x0A0 # [0x19],
                cons_heap := snd (reversed_args spec_runtime
                  (cons_heap (step_entry spec_runtime two_args_tight_state_apply)) 0x0A0),
                perform_gc := True\<rparr>
      = two_args_tight_state_apply\<lparr>perform_gc := True, non_gc := 8\<rparr>"
    by (simp add: h two_args_tight_reversal_heap step_entry_apply)
       (simp add: two_args_tight_state_apply_def spec_runtime_def spec_enc_u_def FUNCTION_APP_def)
  finally have b: "eval_iteration spec_runtime two_args_tight_state_apply
      = Some (two_args_tight_state_apply\<lparr>perform_gc := True, non_gc := 8\<rparr>)" .
  from closure_arity_check [OF nd(3) ngu(3) applies_closure_apply(3) refl]
    reversal_apply(3) one_arg_state_apply_lengths
  have c: "\<exists>s'. eval_iteration spec_runtime one_arg_state_apply = Some s' \<and> \<not> done_flag s'"
    by (simp add: h)
  from a b c show ?thesis by blast
qed

text \<open>
  The claim as stated names \<^verbatim>\<open>ERR_ARITY\<close> as the result. The evaluator has no such
  symbol: the application of \<^verbatim>\<open>(lambda (x) x)\<close> to no argument, and to two, ends with the
  evaluation error, the spec's \<^verbatim>\<open>ERR_EVAL\<close>, which is also the result for the unbound
  variable \<^verbatim>\<open>x\<close>. And where the heap has no cell left for the reversal of the two arguments,
  the lengths are never compared: the evaluation ends with the memory error.
\<close>

theorem arity_mismatch_counterexample:
  "map_option r_value (run_eval spec_runtime arity_state) = Some (lbm_enc_sym ERR_EVAL) \<and>
   map_option r_value (run_eval spec_runtime two_args_state) = Some (lbm_enc_sym ERR_EVAL) \<and>
   lbm_enc_sym ERR_EVAL \<noteq> lbm_enc_sym ERR_ARITY \<and>
   map_option r_value (run_eval spec_runtime unbound_state) = Some (lbm_enc_sym ERR_EVAL) \<and>
   map_option r_value (run_eval spec_runtime two_args_tight_state)
     = Some (lbm_enc_sym ERR_OUT_OF_MEMORY) \<and>
   lbm_enc_sym ERR_OUT_OF_MEMORY \<noteq> lbm_enc_sym ERR_ARITY"
  by code_simp

end
